theory Spec2Isabelle
  imports Complex_Main
begin

section \<open>Python values reaching the driver\<close>

text \<open>
  The driver \<^verbatim>\<open>InstERASynthMicro\<close> of \<^verbatim>\<open>inst_ERASynthMicro.py\<close> is dynamically
  typed. The values its numeric setters can be handed are modelled by \<open>pyval\<close>. A float is
  either a finite binary fraction \<open>m * 2 ^ e\<close> (\<open>Finite m e\<close>), an infinity or a NaN.

  A text that the caller hands to the driver is a \<open>string\<close>: a list of characters, each the
  code point of a character below 256 (ASCII and Latin-1). A text that is decoded from the
  bytes of the instrument is a list of code points of any size (\<open>unicode\<close>). Bytes are
  a \<open>string\<close> too, one character per byte.
\<close>

type_synonym unicode = "nat list"

datatype error = OverflowError | ValueError | UnicodeDecodeError | SystemExit

datatype pyfloat = Finite int int | PosInf | NegInf | NaN

datatype pyval = PyFloat pyfloat | PyInt int | PyStr string | PyBool bool | PyNone

text \<open>The number a finite float stands for.\<close>

definition float_val :: "int \<Rightarrow> int \<Rightarrow> real" where
  "float_val m e = of_int m * 2 powi e"

text \<open>Truncation toward zero, as a reference notion on the reals.\<close>

definition trunc :: "real \<Rightarrow> int" where
  "trunc x = (if 0 \<le> x then \<lfloor>x\<rfloor> else \<lceil>x\<rceil>)"

text \<open>
  \<^verbatim>\<open>int(freq)\<close> on a float: truncation toward zero; Python raises OverflowError on an
  infinity and ValueError on a NaN.
\<close>

fun py_int :: "pyfloat \<Rightarrow> error + int" where
  "py_int (Finite m e) =
     Inr (if 0 \<le> e then m * 2 ^ nat e else sgn m * (\<bar>m\<bar> div 2 ^ nat (- e)))"
| "py_int PosInf = Inl OverflowError"
| "py_int NegInf = Inl OverflowError"
| "py_int NaN = Inl ValueError"

text \<open>
  \<^verbatim>\<open>str\<close> on an int: the decimal digits, with a minus sign when negative. (The bound
  that Python 3.11 and later put on the number of digits of this conversion, 4300 by
  default, is not modelled; the source is older.)
\<close>

fun digits :: "nat \<Rightarrow> string" where
  "digits n = (if n < 10 then [char_of (48 + n)] else digits (n div 10) @ [char_of (48 + n mod 10)])"

declare digits.simps [simp del]

definition str_int :: "int \<Rightarrow> string" where
  "str_int i = (if i < 0 then CHR ''-'' # digits (nat (- i)) else digits (nat i))"


text \<open>
  \<^verbatim>\<open>str\<close> on any value. The text Python prints for a float (its shortest
  round-trip representation) is not part of the driver; it is the parameter \<open>float_repr\<close>.
  Whatever the float, that text is made of the digits, the point, the exponent mark
  \<^verbatim>\<open>e\<close>, the two signs and the letters of \<^verbatim>\<open>inf\<close> and \<^verbatim>\<open>nan\<close>: these are the
  \<open>float_char\<close>s.
\<close>

datatype float_char =
  F0 | F1 | F2 | F3 | F4 | F5 | F6 | F7 | F8 | F9 | Fpoint | Fe | Fplus | Fminus | Fi | Fn | Ff | Fa

fun char_of_float_char :: "float_char \<Rightarrow> char" where
  "char_of_float_char F0 = CHR ''0''"
| "char_of_float_char F1 = CHR ''1''"
| "char_of_float_char F2 = CHR ''2''"
| "char_of_float_char F3 = CHR ''3''"
| "char_of_float_char F4 = CHR ''4''"
| "char_of_float_char F5 = CHR ''5''"
| "char_of_float_char F6 = CHR ''6''"
| "char_of_float_char F7 = CHR ''7''"
| "char_of_float_char F8 = CHR ''8''"
| "char_of_float_char F9 = CHR ''9''"
| "char_of_float_char Fpoint = CHR ''.''"
| "char_of_float_char Fe = CHR ''e''"
| "char_of_float_char Fplus = CHR ''+''"
| "char_of_float_char Fminus = CHR ''-''"
| "char_of_float_char Fi = CHR ''i''"
| "char_of_float_char Fn = CHR ''n''"
| "char_of_float_char Ff = CHR ''f''"
| "char_of_float_char Fa = CHR ''a''"

fun py_str :: "(pyfloat \<Rightarrow> float_char list) \<Rightarrow> pyval \<Rightarrow> string" where
  "py_str float_repr (PyFloat f) = map char_of_float_char (float_repr f)"
| "py_str float_repr (PyInt i) = str_int i"
| "py_str float_repr (PyStr t) = t"
| "py_str float_repr (PyBool b) = (if b then ''True'' else ''False'')"
| "py_str float_repr PyNone = ''None''"

text \<open>
  \<^verbatim>\<open>str.lower\<close> on a text of characters below 256: the capital letters are the 26 of
  ASCII and, in Latin-1, 0xC0 to 0xDE without the multiplication sign 0xD7; each has its
  small letter 32 places further.
\<close>

definition lower_char :: "char \<Rightarrow> char" where
  "lower_char c =
     (let n = (of_char c :: nat)
      in if (65 \<le> n \<and> n \<le> 90) \<or> (192 \<le> n \<and> n \<le> 222 \<and> n \<noteq> 215) then char_of (n + 32) else c)"

definition lower :: "string \<Rightarrow> string" where
  "lower t = map lower_char t"

text \<open>
  \<^verbatim>\<open>str.strip\<close> removes the white space at both ends; the white space of Python's
  \<^verbatim>\<open>str\<close> is these code points.
\<close>

definition is_space :: "nat \<Rightarrow> bool" where
  "is_space n =
     ((9 \<le> n \<and> n \<le> 13) \<or> (28 \<le> n \<and> n \<le> 32) \<or> n = 0x85 \<or> n = 0xA0 \<or> n = 0x1680 \<or>
      (0x2000 \<le> n \<and> n \<le> 0x200A) \<or> n = 0x2028 \<or> n = 0x2029 \<or> n = 0x202F \<or> n = 0x205F \<or>
      n = 0x3000)"

definition strip :: "unicode \<Rightarrow> unicode" where
  "strip t = rev (dropWhile is_space (rev (dropWhile is_space t)))"

definition is_ascii :: "char \<Rightarrow> bool" where
  "is_ascii c = ((of_char c :: nat) < 128)"

text \<open>
  The code points that a text can hold when it is decoded from bytes: the Unicode scalar
  values, which are the code points up to 0x10FFFF without the surrogates.
\<close>

definition scalar :: "nat \<Rightarrow> bool" where
  "scalar n = (n < 0x110000 \<and> \<not> (0xD800 \<le> n \<and> n \<le> 0xDFFF))"

text \<open>The text that has the characters of a \<open>string\<close>.\<close>

definition code_points :: "string \<Rightarrow> unicode" where
  "code_points t = map of_char t"

text \<open>
  \<^verbatim>\<open>str.encode\<close>: UTF-8. \<open>utf8\<close> gives the bytes of one code point; a code point below
  0x80 is one byte, and one below 0x800 is two.
\<close>

definition utf8 :: "nat \<Rightarrow> string" where
  "utf8 n =
     (if n < 0x80 then [char_of n]
      else if n < 0x800 then [char_of (0xC0 + n div 64), char_of (0x80 + n mod 64)]
      else if n < 0x10000 then
        [char_of (0xE0 + n div 4096), char_of (0x80 + n div 64 mod 64), char_of (0x80 + n mod 64)]
      else
        [char_of (0xF0 + n div 262144), char_of (0x80 + n div 4096 mod 64),
         char_of (0x80 + n div 64 mod 64), char_of (0x80 + n mod 64)])"

definition encode :: "string \<Rightarrow> string" where
  "encode t = concat (map (\<lambda>c. utf8 (of_char c)) t)"

text \<open>
  \<^verbatim>\<open>bytes.decode\<close>: strict UTF-8. A byte below 0x80 is its own code point; a lead byte
  0xC2 to 0xDF takes one continuation byte (0x80 to 0xBF), 0xE0 to 0xEF takes two and 0xF0
  to 0xF4 takes three, where the first continuation byte is at least 0xA0 after 0xE0, at
  most 0x9F after 0xED, at least 0x90 after 0xF0 and at most 0x8F after 0xF4 (no overlong
  form, no surrogate, nothing above 0x10FFFF). On every other byte sequence Python raises
  UnicodeDecodeError.
\<close>

definition continuation :: "nat \<Rightarrow> bool" where
  "continuation b = (0x80 \<le> b \<and> b \<le> 0xBF)"

fun utf8_decode :: "nat list \<Rightarrow> unicode option" where
  "utf8_decode [] = Some []"
| "utf8_decode (b0 # bs) =
     (if b0 < 0x80 then map_option (Cons b0) (utf8_decode bs)
      else if 0xC2 \<le> b0 \<and> b0 \<le> 0xDF then
        (case bs of
           b1 # r \<Rightarrow>
             if continuation b1
             then map_option (Cons ((b0 - 0xC0) * 64 + (b1 - 0x80))) (utf8_decode r)
             else None
         | _ \<Rightarrow> None)
      else if 0xE0 \<le> b0 \<and> b0 \<le> 0xEF then
        (case bs of
           b1 # b2 # r \<Rightarrow>
             if (if b0 = 0xE0 then 0xA0 else 0x80) \<le> b1 \<and>
                b1 \<le> (if b0 = 0xED then 0x9F else 0xBF) \<and> continuation b2
             then map_option (Cons ((b0 - 0xE0) * 4096 + (b1 - 0x80) * 64 + (b2 - 0x80)))
                    (utf8_decode r)
             else None
         | _ \<Rightarrow> None)
      else if 0xF0 \<le> b0 \<and> b0 \<le> 0xF4 then
        (case bs of
           b1 # b2 # b3 # r \<Rightarrow>
             if (if b0 = 0xF0 then 0x90 else 0x80) \<le> b1 \<and>
                b1 \<le> (if b0 = 0xF4 then 0x8F else 0xBF) \<and> continuation b2 \<and> continuation b3
             then map_option
                    (Cons ((b0 - 0xF0) * 262144 + (b1 - 0x80) * 4096 + (b2 - 0x80) * 64 +
                       (b3 - 0x80)))
                    (utf8_decode r)
             else None
         | _ \<Rightarrow> None)
      else None)"

definition decode :: "string \<Rightarrow> error + unicode" where
  "decode bs =
     (case utf8_decode (map of_char bs) of None \<Rightarrow> Inl UnicodeDecodeError | Some t \<Rightarrow> Inr t)"

section \<open>The numeric-parameter encoder\<close>

text \<open>
  \<^verbatim>\<open>__num_to_str\<close>: the branches test \<^verbatim>\<open>type(freq)\<close> for exactly float, int and str, in
  this order; a bool is none of them.
\<close>

fun num_to_str :: "pyval \<Rightarrow> error + string" where
  "num_to_str (PyFloat f) = (case py_int f of Inl e \<Rightarrow> Inl e | Inr i \<Rightarrow> Inr (str_int i))"
| "num_to_str (PyInt i) = Inr (str_int i)"
| "num_to_str (PyStr t) = Inr ''0''"
| "num_to_str v = Inr ''0''"

section \<open>The serial link and what happens on it\<close>

text \<open>
  The state is the open serial link with its settings, the bytes the instrument is going
  to send (\<open>rx\<close>) and the list of everything the driver did so far, oldest first: port
  openings, writes, flushes, pauses (in milliseconds), line reads and log records.
\<close>

datatype level = INFO | WARNING | ERROR

record serial_settings =
  port :: string
  baudrate :: nat
  timeout :: nat
  rtscts :: bool
  xonxoff :: bool

datatype event =
    Open serial_settings
  | Write string
  | Flush
  | Sleep nat
  | ReadLine string
  | Log level

record state =
  serial_link :: serial_settings
  events :: "event list"
  rx :: string

definition SEND_DELAY :: nat where
  "SEND_DELAY = 100"

definition EOL :: string where
  "EOL = [CHR 0x0D]"

definition LF :: char where
  "LF = CHR 0x0A"

definition emit :: "event list \<Rightarrow> state \<Rightarrow> state" where
  "emit es s = s\<lparr>events := events s @ es\<rparr>"

text \<open>
  \<^verbatim>\<open>log.info\<close>, \<^verbatim>\<open>log.warning\<close> and \<^verbatim>\<open>log.error\<close>: a record of that level; the
  wording of the message is left out.
\<close>

definition log_info :: "state \<Rightarrow> state" where
  "log_info s = emit [Log INFO] s"

definition log_warning :: "state \<Rightarrow> state" where
  "log_warning s = emit [Log WARNING] s"

text \<open>
  \<^verbatim>\<open>__init__\<close>: one attempt to open the port with the fixed settings. \<open>openable\<close> tells
  which ports \<^verbatim>\<open>serial.Serial\<close> can open; when it raises SerialException the error is
  logged and \<^verbatim>\<open>sys.exit()\<close> raises SystemExit. The result is what was done and either the
  error or the driver's state.
\<close>

definition init :: "(string \<Rightarrow> bool) \<Rightarrow> string \<Rightarrow> string \<Rightarrow> event list \<times> (error + state)" where
  "init openable p incoming =
     (let link = \<lparr>port = p, baudrate = 9600, timeout = 1, rtscts = True, xonxoff = True\<rparr>
      in if openable p
         then ([Open link], Inr \<lparr>serial_link = link, events = [Open link], rx = incoming\<rparr>)
         else ([Open link, Log ERROR], Inl SystemExit))"

text \<open>\<^verbatim>\<open>__send_cmd\<close>: write the command and the CR, flush, pause.\<close>

definition send_cmd :: "string \<Rightarrow> state \<Rightarrow> state" where
  "send_cmd cmd s = emit [Write (encode cmd @ EOL), Flush, Sleep SEND_DELAY] s"

text \<open>
  \<^verbatim>\<open>readline\<close> of the link: the pending bytes up to and including the first line feed,
  or all of them when the timeout ends the read.
\<close>

definition readline :: "string \<Rightarrow> string \<times> string" where
  "readline bs =
     (let l = takeWhile (\<lambda>c. c \<noteq> LF) bs; r = dropWhile (\<lambda>c. c \<noteq> LF) bs
      in (l @ take 1 r, drop 1 r))"

text \<open>\<^verbatim>\<open>__send_cmd_resp\<close>: write, flush, read a line, decode it, strip it twice.\<close>

definition send_cmd_resp :: "string \<Rightarrow> state \<Rightarrow> (error + unicode) \<times> state" where
  "send_cmd_resp cmd s =
     (let (l, r) = readline (rx s);
          s' = (emit [Write (encode cmd @ EOL), Flush, ReadLine l] s)\<lparr>rx := r\<rparr>
      in (case decode l of
            Inl e \<Rightarrow> (Inl e, s')
          | Inr resp \<Rightarrow> (let resp_clean = strip resp in (Inr (strip resp_clean), s'))))"

section \<open>The driver's operations\<close>

text \<open>
  Each method of the class is one definition of the same name. A setter with a numeric
  parameter evaluates \<^verbatim>\<open>__num_to_str\<close> before anything is written, so an error raised there
  leaves the link untouched.
\<close>

definition refresh_lcd_home :: "state \<Rightarrow> state" where
  "refresh_lcd_home s = send_cmd ''>GH'' s"

definition set_rf_on :: "state \<Rightarrow> state" where
  "set_rf_on s = refresh_lcd_home (log_info (send_cmd ''>SF1'' s))"

definition set_rf_off :: "state \<Rightarrow> state" where
  "set_rf_off s = refresh_lcd_home (log_info (send_cmd ''>SF0'' s))"

definition set_frequency :: "pyval \<Rightarrow> state \<Rightarrow> error + state" where
  "set_frequency freq s =
     (case num_to_str freq of
        Inl e \<Rightarrow> Inl e
      | Inr n \<Rightarrow> Inr (refresh_lcd_home (log_info (send_cmd (''>F'' @ n) s))))"

definition set_amplitude :: "(pyfloat \<Rightarrow> float_char list) \<Rightarrow> pyval \<Rightarrow> state \<Rightarrow> state" where
  "set_amplitude float_repr ampl s =
     refresh_lcd_home (log_info (send_cmd (''>SA'' @ py_str float_repr ampl) s))"

definition set_modulation_on :: "state \<Rightarrow> state" where
  "set_modulation_on s = refresh_lcd_home (log_info (send_cmd ''>SM1'' s))"

definition set_modulation_off :: "state \<Rightarrow> state" where
  "set_modulation_off s = refresh_lcd_home (log_info (send_cmd ''>SM0'' s))"

definition set_modulation_source_internal :: "state \<Rightarrow> state" where
  "set_modulation_source_internal s = refresh_lcd_home (log_info (send_cmd ''>SMI0'' s))"

definition set_modulation_source_external :: "state \<Rightarrow> state" where
  "set_modulation_source_external s = refresh_lcd_home (log_info (send_cmd ''>SMI1'' s))"

definition set_modulation_source_microphone :: "state \<Rightarrow> state" where
  "set_modulation_source_microphone s = refresh_lcd_home (log_info (send_cmd ''>SMI2'' s))"

definition set_modulation_source :: "string \<Rightarrow> state \<Rightarrow> state" where
  "set_modulation_source source s =
     refresh_lcd_home (
      if lower source \<in> set [''internal'', ''int''] then set_modulation_source_internal s
      else if lower source \<in> set [''external'', ''ext''] then set_modulation_source_external s
      else if lower source \<in> set [''microphone'', ''mic''] then set_modulation_source_microphone s
      else log_warning s)"

definition set_modulation_type_am :: "state \<Rightarrow> state" where
  "set_modulation_type_am s = refresh_lcd_home (log_info (send_cmd ''>SMT0'' s))"

definition set_modulation_type_fm :: "state \<Rightarrow> state" where
  "set_modulation_type_fm s = refresh_lcd_home (log_info (send_cmd ''>SMT1'' s))"

definition set_modulation_type_pulse :: "state \<Rightarrow> state" where
  "set_modulation_type_pulse s = refresh_lcd_home (log_info (send_cmd ''>SMT2'' s))"

definition set_modulation_type :: "string \<Rightarrow> state \<Rightarrow> state" where
  "set_modulation_type mod_type s =
     refresh_lcd_home (
      if lower mod_type \<in> set [''am'', ''amplitude''] then set_modulation_type_am s
      else if lower mod_type \<in> set [''fm'', ''frequency''] then set_modulation_type_fm s
      else if lower mod_type \<in> set [''pulse''] then set_modulation_type_pulse s
      else log_warning s)"

definition set_modulation_wave_sine :: "state \<Rightarrow> state" where
  "set_modulation_wave_sine s = refresh_lcd_home (log_info (send_cmd ''>SMW0'' s))"

definition set_modulation_wave_ramp :: "state \<Rightarrow> state" where
  "set_modulation_wave_ramp s = refresh_lcd_home (log_info (send_cmd ''>SMW1'' s))"

definition set_modulation_wave_square :: "state \<Rightarrow> state" where
  "set_modulation_wave_square s = refresh_lcd_home (log_info (send_cmd ''>SMW2'' s))"

definition set_modulation_wave_triangle :: "state \<Rightarrow> state" where
  "set_modulation_wave_triangle s = refresh_lcd_home (log_info (send_cmd ''>SMW0'' s))"

definition set_modulation_wave_type :: "string \<Rightarrow> state \<Rightarrow> state" where
  "set_modulation_wave_type wave s =
     refresh_lcd_home (
      if lower wave \<in> set [''sine''] then set_modulation_wave_sine s
      else if lower wave \<in> set [''ramp''] then set_modulation_wave_ramp s
      else if lower wave \<in> set [''square''] then set_modulation_wave_square s
      else if lower wave \<in> set [''triangle''] then set_modulation_wave_triangle s
      else log_warning s)"

definition set_modulation_frequency :: "pyval \<Rightarrow> state \<Rightarrow> error + state" where
  "set_modulation_frequency freq s =
     (case num_to_str freq of
        Inl e \<Rightarrow> Inl e
      | Inr n \<Rightarrow> Inr (refresh_lcd_home (log_info (send_cmd (''>SMF'' @ n) s))))"

definition set_modulation_am_depth :: "(pyfloat \<Rightarrow> float_char list) \<Rightarrow> pyval \<Rightarrow> state \<Rightarrow> state" where
  "set_modulation_am_depth float_repr depth s =
     refresh_lcd_home (log_info (send_cmd (''>SMA'' @ py_str float_repr depth) s))"

definition set_modulation_fm_deviation :: "pyval \<Rightarrow> state \<Rightarrow> error + state" where
  "set_modulation_fm_deviation deviation s =
     (case num_to_str deviation of
        Inl e \<Rightarrow> Inl e
      | Inr n \<Rightarrow> Inr (refresh_lcd_home (log_info (send_cmd (''>SMFD'' @ n) s))))"

definition set_modulation_pulse_period_us :: "pyval \<Rightarrow> state \<Rightarrow> error + state" where
  "set_modulation_pulse_period_us period s =
     (case num_to_str period of
        Inl e \<Rightarrow> Inl e
      | Inr n \<Rightarrow> Inr (refresh_lcd_home (log_info (send_cmd (''>SMPP'' @ n) s))))"

definition set_modulation_pulse_width_us :: "pyval \<Rightarrow> state \<Rightarrow> error + state" where
  "set_modulation_pulse_width_us width s =
     (case num_to_str width of
        Inl e \<Rightarrow> Inl e
      | Inr n \<Rightarrow> Inr (refresh_lcd_home (log_info (send_cmd (''>SMPW'' @ n) s))))"

definition set_sweep_on :: "state \<Rightarrow> state" where
  "set_sweep_on s = refresh_lcd_home (log_info (send_cmd ''>SS5'' s))"

definition set_sweep_off :: "state \<Rightarrow> state" where
  "set_sweep_off s = refresh_lcd_home (log_info (send_cmd ''>SS6'' s))"

definition set_sweep_trigger_freerun :: "state \<Rightarrow> state" where
  "set_sweep_trigger_freerun s = refresh_lcd_home (log_info (send_cmd ''>SS70'' s))"

definition set_sweep_trigger_external :: "state \<Rightarrow> state" where
  "set_sweep_trigger_external s = refresh_lcd_home (log_info (send_cmd ''>SS71'' s))"

definition set_sweep_trigger :: "string \<Rightarrow> state \<Rightarrow> state" where
  "set_sweep_trigger trigger s =
     refresh_lcd_home (
      if lower trigger \<in> set [''free'', ''freerun''] then set_sweep_trigger_freerun s
      else if lower trigger \<in> set [''ext'', ''external''] then set_sweep_trigger_external s
      else log_warning s)"

definition set_sweep_start_frequency :: "pyval \<Rightarrow> state \<Rightarrow> error + state" where
  "set_sweep_start_frequency freq s =
     (case num_to_str freq of
        Inl e \<Rightarrow> Inl e
      | Inr n \<Rightarrow> Inr (refresh_lcd_home (log_info (send_cmd (''>SS1'' @ n) s))))"

definition set_sweep_stop_frequency :: "pyval \<Rightarrow> state \<Rightarrow> error + state" where
  "set_sweep_stop_frequency freq s =
     (case num_to_str freq of
        Inl e \<Rightarrow> Inl e
      | Inr n \<Rightarrow> Inr (refresh_lcd_home (log_info (send_cmd (''>SS2'' @ n) s))))"

definition set_sweep_step_frequency :: "pyval \<Rightarrow> state \<Rightarrow> error + state" where
  "set_sweep_step_frequency freq s =
     (case num_to_str freq of
        Inl e \<Rightarrow> Inl e
      | Inr n \<Rightarrow> Inr (refresh_lcd_home (log_info (send_cmd (''>SS3'' @ n) s))))"

definition set_sweep_dwell_time_us :: "pyval \<Rightarrow> state \<Rightarrow> error + state" where
  "set_sweep_dwell_time_us dwell s =
     (case num_to_str dwell of
        Inl e \<Rightarrow> Inl e
      | Inr n \<Rightarrow> Inr (refresh_lcd_home (log_info (send_cmd (''>SS4'' @ n) s))))"

definition set_ref_source_internal :: "state \<Rightarrow> state" where
  "set_ref_source_internal s = refresh_lcd_home (log_info (send_cmd ''>SR0'' s))"

definition set_ref_source_external :: "state \<Rightarrow> state" where
  "set_ref_source_external s = refresh_lcd_home (log_info (send_cmd ''>SR1'' s))"

definition set_ref_source :: "string \<Rightarrow> state \<Rightarrow> state" where
  "set_ref_source source s =
     refresh_lcd_home (
      if lower source \<in> set [''internal'', ''int''] then set_ref_source_internal s
      else if lower source \<in> set [''external'', ''ext''] then set_ref_source_external s
      else log_warning s)"

definition set_vibration_on :: "state \<Rightarrow> state" where
  "set_vibration_on s = refresh_lcd_home (log_info (send_cmd ''>SV1'' s))"

definition set_vibration_off :: "state \<Rightarrow> state" where
  "set_vibration_off s = refresh_lcd_home (log_info (send_cmd ''>SV0'' s))"

text \<open>\<^verbatim>\<open>set_vibration\<close> ends with its last branch: it has no refresh of its own.\<close>

definition set_vibration :: "string \<Rightarrow> state \<Rightarrow> state" where
  "set_vibration vibration s =
     (
      if lower vibration \<in> set [''on''] then set_vibration_on s
      else if lower vibration \<in> set [''off''] then set_vibration_off s
      else log_warning s)"

text \<open>\<^verbatim>\<open>vibrate_30ms\<close> sends its command and logs; it does not refresh.\<close>

definition vibrate_30ms :: "state \<Rightarrow> state" where
  "vibrate_30ms s = log_info (send_cmd ''>GV'' s)"

text \<open>
  \<^verbatim>\<open>set_preset\<close> calls \<^verbatim>\<open>set_frequency()\<close> and \<^verbatim>\<open>set_amplitude()\<close> with their default
  arguments, the float \<^verbatim>\<open>1e9\<close> and the int \<^verbatim>\<open>0\<close>.
\<close>

definition set_frequency_default :: pyval where
  "set_frequency_default = PyFloat (Finite 1000000000 0)"

definition set_amplitude_default :: pyval where
  "set_amplitude_default = PyInt 0"

definition set_preset :: "(pyfloat \<Rightarrow> float_char list) \<Rightarrow> state \<Rightarrow> error + state" where
  "set_preset float_repr s =
     (case set_frequency set_frequency_default (set_rf_off s) of
        Inl e \<Rightarrow> Inl e
      | Inr s' \<Rightarrow>
          Inr (refresh_lcd_home (set_ref_source_internal (set_sweep_off (set_modulation_off
            (set_amplitude float_repr set_amplitude_default s'))))))"

definition get_temperature :: "state \<Rightarrow> (error + unicode) \<times> state" where
  "get_temperature s = send_cmd_resp ''>RT'' s"

definition get_current :: "state \<Rightarrow> (error + unicode) \<times> state" where
  "get_current s = send_cmd_resp ''>RC'' s"

section \<open>Calls and what they put on the wire\<close>

text \<open>
  A call of a setter of the driver, with its argument. \<open>run\<close> performs the call; for
  a setter that cannot raise, the result is always an \<open>Inr\<close>.
\<close>

datatype operation =
    Set_rf_on
  | Set_rf_off
  | Refresh_lcd_home
  | Set_modulation_on
  | Set_modulation_off
  | Set_modulation_source_internal
  | Set_modulation_source_external
  | Set_modulation_source_microphone
  | Set_modulation_type_am
  | Set_modulation_type_fm
  | Set_modulation_type_pulse
  | Set_modulation_wave_sine
  | Set_modulation_wave_ramp
  | Set_modulation_wave_square
  | Set_modulation_wave_triangle
  | Set_sweep_on
  | Set_sweep_off
  | Set_sweep_trigger_freerun
  | Set_sweep_trigger_external
  | Set_ref_source_internal
  | Set_ref_source_external
  | Set_vibration_on
  | Set_vibration_off
  | Vibrate_30ms
  | Set_frequency pyval
  | Set_modulation_frequency pyval
  | Set_modulation_fm_deviation pyval
  | Set_modulation_pulse_period_us pyval
  | Set_modulation_pulse_width_us pyval
  | Set_sweep_start_frequency pyval
  | Set_sweep_stop_frequency pyval
  | Set_sweep_step_frequency pyval
  | Set_sweep_dwell_time_us pyval
  | Set_amplitude pyval
  | Set_modulation_am_depth pyval
  | Set_modulation_source string
  | Set_modulation_type string
  | Set_modulation_wave_type string
  | Set_sweep_trigger string
  | Set_ref_source string
  | Set_vibration string

fun run :: "(pyfloat \<Rightarrow> float_char list) \<Rightarrow> operation \<Rightarrow> state \<Rightarrow> error + state" where
  "run float_repr Set_rf_on s = Inr (set_rf_on s)"
| "run float_repr Set_rf_off s = Inr (set_rf_off s)"
| "run float_repr Refresh_lcd_home s = Inr (refresh_lcd_home s)"
| "run float_repr Set_modulation_on s = Inr (set_modulation_on s)"
| "run float_repr Set_modulation_off s = Inr (set_modulation_off s)"
| "run float_repr Set_modulation_source_internal s = Inr (set_modulation_source_internal s)"
| "run float_repr Set_modulation_source_external s = Inr (set_modulation_source_external s)"
| "run float_repr Set_modulation_source_microphone s = Inr (set_modulation_source_microphone s)"
| "run float_repr Set_modulation_type_am s = Inr (set_modulation_type_am s)"
| "run float_repr Set_modulation_type_fm s = Inr (set_modulation_type_fm s)"
| "run float_repr Set_modulation_type_pulse s = Inr (set_modulation_type_pulse s)"
| "run float_repr Set_modulation_wave_sine s = Inr (set_modulation_wave_sine s)"
| "run float_repr Set_modulation_wave_ramp s = Inr (set_modulation_wave_ramp s)"
| "run float_repr Set_modulation_wave_square s = Inr (set_modulation_wave_square s)"
| "run float_repr Set_modulation_wave_triangle s = Inr (set_modulation_wave_triangle s)"
| "run float_repr Set_sweep_on s = Inr (set_sweep_on s)"
| "run float_repr Set_sweep_off s = Inr (set_sweep_off s)"
| "run float_repr Set_sweep_trigger_freerun s = Inr (set_sweep_trigger_freerun s)"
| "run float_repr Set_sweep_trigger_external s = Inr (set_sweep_trigger_external s)"
| "run float_repr Set_ref_source_internal s = Inr (set_ref_source_internal s)"
| "run float_repr Set_ref_source_external s = Inr (set_ref_source_external s)"
| "run float_repr Set_vibration_on s = Inr (set_vibration_on s)"
| "run float_repr Set_vibration_off s = Inr (set_vibration_off s)"
| "run float_repr Vibrate_30ms s = Inr (vibrate_30ms s)"
| "run float_repr (Set_frequency v) s = set_frequency v s"
| "run float_repr (Set_modulation_frequency v) s = set_modulation_frequency v s"
| "run float_repr (Set_modulation_fm_deviation v) s = set_modulation_fm_deviation v s"
| "run float_repr (Set_modulation_pulse_period_us v) s = set_modulation_pulse_period_us v s"
| "run float_repr (Set_modulation_pulse_width_us v) s = set_modulation_pulse_width_us v s"
| "run float_repr (Set_sweep_start_frequency v) s = set_sweep_start_frequency v s"
| "run float_repr (Set_sweep_stop_frequency v) s = set_sweep_stop_frequency v s"
| "run float_repr (Set_sweep_step_frequency v) s = set_sweep_step_frequency v s"
| "run float_repr (Set_sweep_dwell_time_us v) s = set_sweep_dwell_time_us v s"
| "run float_repr (Set_amplitude v) s = Inr (set_amplitude float_repr v s)"
| "run float_repr (Set_modulation_am_depth v) s = Inr (set_modulation_am_depth float_repr v s)"
| "run float_repr (Set_modulation_source a) s = Inr (set_modulation_source a s)"
| "run float_repr (Set_modulation_type a) s = Inr (set_modulation_type a s)"
| "run float_repr (Set_modulation_wave_type a) s = Inr (set_modulation_wave_type a s)"
| "run float_repr (Set_sweep_trigger a) s = Inr (set_sweep_trigger a s)"
| "run float_repr (Set_ref_source a) s = Inr (set_ref_source a s)"
| "run float_repr (Set_vibration a) s = Inr (set_vibration a s)"

text \<open>The byte sequences written to the link, in order, one per write.\<close>

fun writes :: "event list \<Rightarrow> string list" where
  "writes [] = []"
| "writes (Write bs # es) = bs # writes es"
| "writes (e # es) = writes es"

definition wire :: "state \<Rightarrow> string list" where
  "wire s = writes (events s)"

text \<open>What was done, and what was written, between an earlier state and a later one.\<close>

definition done_by :: "state \<Rightarrow> state \<Rightarrow> event list" where
  "done_by s s' = drop (length (events s)) (events s')"

definition sent_by :: "state \<Rightarrow> state \<Rightarrow> string list" where
  "sent_by s s' = writes (done_by s s')"

section \<open>The command table of the specification\<close>

text \<open>
  The six settings that are chosen by name, and the setter that dispatches on the name.
\<close>

datatype setting =
  Modulation_source | Modulation_type | Modulation_wave_type | Sweep_trigger | Ref_source | Vibration

fun dispatcher :: "setting \<Rightarrow> string \<Rightarrow> state \<Rightarrow> state" where
  "dispatcher Modulation_source = set_modulation_source"
| "dispatcher Modulation_type = set_modulation_type"
| "dispatcher Modulation_wave_type = set_modulation_wave_type"
| "dispatcher Sweep_trigger = set_sweep_trigger"
| "dispatcher Ref_source = set_ref_source"
| "dispatcher Vibration = set_vibration"

text \<open>
  The wire code that the table of section 4.2 of the specification gives for each option
  of a setting, under every name that the setter of the source accepts for the option (the
  full name and its short forms), names in lower case; \<open>None\<close> for every other text.
\<close>

fun alias_code :: "setting \<Rightarrow> string \<Rightarrow> string option" where
  "alias_code Modulation_source a =
     map_of [(''internal'', ''>SMI0''), (''int'', ''>SMI0''), (''external'', ''>SMI1''),
             (''ext'', ''>SMI1''), (''microphone'', ''>SMI2''), (''mic'', ''>SMI2'')] a"
| "alias_code Modulation_type a =
     map_of [(''am'', ''>SMT0''), (''amplitude'', ''>SMT0''), (''fm'', ''>SMT1''),
             (''frequency'', ''>SMT1''), (''pulse'', ''>SMT2'')] a"
| "alias_code Modulation_wave_type a =
     map_of [(''sine'', ''>SMW0''), (''ramp'', ''>SMW1''), (''square'', ''>SMW2''),
             (''triangle'', ''>SMW0'')] a"
| "alias_code Sweep_trigger a =
     map_of [(''free'', ''>SS70''), (''freerun'', ''>SS70''), (''ext'', ''>SS71''),
             (''external'', ''>SS71'')] a"
| "alias_code Ref_source a =
     map_of [(''internal'', ''>SR0''), (''int'', ''>SR0''), (''external'', ''>SR1''),
             (''ext'', ''>SR1'')] a"
| "alias_code Vibration a = map_of [(''on'', ''>SV1''), (''off'', ''>SV0'')] a"

text \<open>
  The encoded numeric parameter, written \<^verbatim>\<open><n>\<close> in the table: what the encoder
  returns. \<open>finite_arg\<close> holds of a call unless its argument is a float that the encoder
  cannot convert.
\<close>

definition encoded :: "pyval \<Rightarrow> string" where
  "encoded v = (case num_to_str v of Inl e \<Rightarrow> [] | Inr n \<Rightarrow> n)"

fun finite_val :: "pyval \<Rightarrow> bool" where
  "finite_val (PyFloat (Finite m e)) = True"
| "finite_val (PyFloat f) = False"
| "finite_val v = True"

fun finite_arg :: "operation \<Rightarrow> bool" where
  "finite_arg (Set_frequency v) = finite_val v"
| "finite_arg (Set_modulation_frequency v) = finite_val v"
| "finite_arg (Set_modulation_fm_deviation v) = finite_val v"
| "finite_arg (Set_modulation_pulse_period_us v) = finite_val v"
| "finite_arg (Set_modulation_pulse_width_us v) = finite_val v"
| "finite_arg (Set_sweep_start_frequency v) = finite_val v"
| "finite_arg (Set_sweep_stop_frequency v) = finite_val v"
| "finite_arg (Set_sweep_step_frequency v) = finite_val v"
| "finite_arg (Set_sweep_dwell_time_us v) = finite_val v"
| "finite_arg op = True"

text \<open>
  The table of section 4.2, call by call: the command string of the call as it is on the
  wire, or \<open>None\<close> when the call names no option of its setting. The codes and the
  encoded numeric parameters are ASCII, a byte for a character; the amplitude and the AM
  depth are whatever \<^verbatim>\<open>str\<close> gives, in UTF-8.
\<close>

fun command :: "(pyfloat \<Rightarrow> float_char list) \<Rightarrow> operation \<Rightarrow> string option" where
  "command float_repr Set_rf_on = Some ''>SF1''"
| "command float_repr Set_rf_off = Some ''>SF0''"
| "command float_repr Refresh_lcd_home = Some ''>GH''"
| "command float_repr Set_modulation_on = Some ''>SM1''"
| "command float_repr Set_modulation_off = Some ''>SM0''"
| "command float_repr Set_modulation_source_internal = Some ''>SMI0''"
| "command float_repr Set_modulation_source_external = Some ''>SMI1''"
| "command float_repr Set_modulation_source_microphone = Some ''>SMI2''"
| "command float_repr Set_modulation_type_am = Some ''>SMT0''"
| "command float_repr Set_modulation_type_fm = Some ''>SMT1''"
| "command float_repr Set_modulation_type_pulse = Some ''>SMT2''"
| "command float_repr Set_modulation_wave_sine = Some ''>SMW0''"
| "command float_repr Set_modulation_wave_ramp = Some ''>SMW1''"
| "command float_repr Set_modulation_wave_square = Some ''>SMW2''"
| "command float_repr Set_modulation_wave_triangle = Some ''>SMW0''"
| "command float_repr Set_sweep_on = Some ''>SS5''"
| "command float_repr Set_sweep_off = Some ''>SS6''"
| "command float_repr Set_sweep_trigger_freerun = Some ''>SS70''"
| "command float_repr Set_sweep_trigger_external = Some ''>SS71''"
| "command float_repr Set_ref_source_internal = Some ''>SR0''"
| "command float_repr Set_ref_source_external = Some ''>SR1''"
| "command float_repr Set_vibration_on = Some ''>SV1''"
| "command float_repr Set_vibration_off = Some ''>SV0''"
| "command float_repr Vibrate_30ms = Some ''>GV''"
| "command float_repr (Set_frequency v) = Some (''>F'' @ encoded v)"
| "command float_repr (Set_modulation_frequency v) = Some (''>SMF'' @ encoded v)"
| "command float_repr (Set_modulation_fm_deviation v) = Some (''>SMFD'' @ encoded v)"
| "command float_repr (Set_modulation_pulse_period_us v) = Some (''>SMPP'' @ encoded v)"
| "command float_repr (Set_modulation_pulse_width_us v) = Some (''>SMPW'' @ encoded v)"
| "command float_repr (Set_sweep_start_frequency v) = Some (''>SS1'' @ encoded v)"
| "command float_repr (Set_sweep_stop_frequency v) = Some (''>SS2'' @ encoded v)"
| "command float_repr (Set_sweep_step_frequency v) = Some (''>SS3'' @ encoded v)"
| "command float_repr (Set_sweep_dwell_time_us v) = Some (''>SS4'' @ encoded v)"
| "command float_repr (Set_amplitude v) = Some (''>SA'' @ encode (py_str float_repr v))"
| "command float_repr (Set_modulation_am_depth v) = Some (''>SMA'' @ encode (py_str float_repr v))"
| "command float_repr (Set_modulation_source a) = alias_code Modulation_source (lower a)"
| "command float_repr (Set_modulation_type a) = alias_code Modulation_type (lower a)"
| "command float_repr (Set_modulation_wave_type a) = alias_code Modulation_wave_type (lower a)"
| "command float_repr (Set_sweep_trigger a) = alias_code Sweep_trigger (lower a)"
| "command float_repr (Set_ref_source a) = alias_code Ref_source (lower a)"
| "command float_repr (Set_vibration a) = alias_code Vibration (lower a)"


text \<open>
  The number of refresh commands that follow the command of a call: none after the
  vibration pulse and after the refresh itself; after a dispatching setter, the one of the
  setter it delegates to (when the name is known) and its own (all but
  \<^verbatim>\<open>set_vibration\<close>); one after every other setter.
\<close>

fun known :: "setting \<Rightarrow> string \<Rightarrow> nat" where
  "known d a = (case alias_code d (lower a) of None \<Rightarrow> 0 | Some c \<Rightarrow> 1)"

fun refreshes :: "operation \<Rightarrow> nat" where
  "refreshes Vibrate_30ms = 0"
| "refreshes Refresh_lcd_home = 0"
| "refreshes (Set_modulation_source a) = known Modulation_source a + 1"
| "refreshes (Set_modulation_type a) = known Modulation_type a + 1"
| "refreshes (Set_modulation_wave_type a) = known Modulation_wave_type a + 1"
| "refreshes (Set_sweep_trigger a) = known Sweep_trigger a + 1"
| "refreshes (Set_ref_source a) = known Ref_source a + 1"
| "refreshes (Set_vibration a) = known Vibration a"
| "refreshes op = 1"


text \<open>The characters of a command: ASCII, and not the carriage return that ends it.\<close>

definition command_char :: "char \<Rightarrow> bool" where
  "command_char c = (is_ascii c \<and> c \<noteq> CHR 0x0D)"

text \<open>The prefixes of the commands that set a sub-parameter of the modulation or the sweep.\<close>

definition sub_parameter_prefixes :: "string list" where
  "sub_parameter_prefixes =
     [''>SS1'', ''>SS2'', ''>SS3'', ''>SS4'',
      ''>SMI'', ''>SMT'', ''>SMW'', ''>SMF'', ''>SMA'', ''>SMFD'', ''>SMPP'', ''>SMPW'']"

definition starts_with :: "string \<Rightarrow> string \<Rightarrow> bool" where
  "starts_with p w = (take (length p) w = p)"

section \<open>A concrete link for the examples\<close>

text \<open>
  A link on the default port with the response \<^verbatim>\<open>" 23.5 \n"\<close> pending, and a stand-in for
  the rendering of floats (no example depends on what it returns).
\<close>

definition example_repr :: "pyfloat \<Rightarrow> float_char list" where
  "example_repr f = [F0, Fpoint, F5]"

definition example_state :: state where
  "example_state =
     \<lparr>serial_link = \<lparr>port = ''/dev/ttyACM0'', baudrate = 9600, timeout = 1, rtscts = True,
                     xonxoff = True\<rparr>,
      events = [], rx = '' 23.5 '' @ [CHR 0x0A]\<rparr>"

text \<open>A machine on which only the default port can be opened.\<close>

definition only_ttyACM0 :: "string \<Rightarrow> bool" where
  "only_ttyACM0 p = (p = ''/dev/ttyACM0'')"

section \<open>Properties\<close>

subsection \<open>Bookkeeping\<close>

lemma writes_append [simp]: "writes (xs @ ys) = writes xs @ writes ys"
  by (induction xs rule: writes.induct) auto

lemma events_emit [simp]: "events (emit es s) = events s @ es"
  by (simp add: emit_def)

lemma rx_emit [simp]: "rx (emit es s) = rx s"
  by (simp add: emit_def)

lemma link_emit [simp]: "serial_link (emit es s) = serial_link s"
  by (simp add: emit_def)

lemma encode_append: "encode (t @ u) = encode t @ encode u"
  by (simp add: encode_def)

lemma utf8_ascii: "is_ascii c \<Longrightarrow> utf8 (of_char c) = [c]"
  by (simp add: utf8_def is_ascii_def)

lemma encode_ascii: "list_all is_ascii t \<Longrightarrow> encode t = t"
  by (induction t) (simp_all add: encode_def utf8_ascii)

lemma encode_Cons_ascii: "is_ascii c \<Longrightarrow> encode (c # t) = c # encode t"
  by (simp add: encode_def utf8_ascii)

lemma encode_Nil: "encode [] = []"
  by (simp add: encode_def)

lemmas prim_defs = send_cmd_def log_info_def log_warning_def refresh_lcd_home_def
  EOL_def SEND_DELAY_def encode_append encode_Cons_ascii encode_Nil is_ascii_def

lemmas simple_defs = set_rf_on_def set_rf_off_def set_modulation_on_def set_modulation_off_def
  set_modulation_source_internal_def set_modulation_source_external_def
  set_modulation_source_microphone_def set_modulation_type_am_def set_modulation_type_fm_def
  set_modulation_type_pulse_def set_modulation_wave_sine_def set_modulation_wave_ramp_def
  set_modulation_wave_square_def set_modulation_wave_triangle_def set_sweep_on_def
  set_sweep_off_def set_sweep_trigger_freerun_def set_sweep_trigger_external_def
  set_ref_source_internal_def set_ref_source_external_def set_vibration_on_def
  set_vibration_off_def vibrate_30ms_def

lemmas numeric_defs = set_frequency_def set_modulation_frequency_def
  set_modulation_fm_deviation_def set_modulation_pulse_period_us_def
  set_modulation_pulse_width_us_def set_sweep_start_frequency_def set_sweep_stop_frequency_def
  set_sweep_step_frequency_def set_sweep_dwell_time_us_def

lemmas plain_defs = set_amplitude_def set_modulation_am_depth_def

lemmas dispatch_defs = set_modulation_source_def set_modulation_type_def
  set_modulation_wave_type_def set_sweep_trigger_def set_ref_source_def set_vibration_def

subsection \<open>Truncation and decimal digits\<close>

lemma trunc_of_int: "trunc (of_int z) = z"
  by (simp add: trunc_def)

lemma py_int_trunc: "py_int (Finite m e) = Inr (trunc (float_val m e))"
proof (cases "0 \<le> e")
  case True
  then have "float_val m e = of_int (m * 2 ^ nat e)"
    by (simp add: float_val_def power_int_def)
  then have "trunc (float_val m e) = m * 2 ^ nat e"
    by (simp only: trunc_of_int)
  then show ?thesis using True by simp
next
  case False
  define k where "k = nat (- e)"
  have fv: "float_val m e = of_int m / of_int (2 ^ k)"
    using False by (simp add: float_val_def power_int_def k_def field_simps)
  have pos: "(0::real) < of_int (2 ^ k)" by simp
  show ?thesis
  proof (cases "0 \<le> m")
    case True
    then have "0 \<le> float_val m e" unfolding fv using pos by (simp del: of_int_power)
    moreover have "\<lfloor>float_val m e\<rfloor> = m div 2 ^ k"
      unfolding fv by (rule floor_divide_of_int_eq)
    ultimately show ?thesis using True False by (simp add: trunc_def k_def sgn_if)
  next
    case m: False
    then have neg: "float_val m e < 0" unfolding fv using pos
      by (simp add: divide_neg_pos del: of_int_power)
    have "- float_val m e = of_int (- m) / of_int (2 ^ k)"
      unfolding fv by simp
    then have "\<lfloor>- float_val m e\<rfloor> = (- m) div 2 ^ k"
      by (simp only: floor_divide_of_int_eq)
    then have "\<lceil>float_val m e\<rceil> = - ((- m) div 2 ^ k)"
      by (simp add: ceiling_def)
    then show ?thesis using m neg False by (simp add: trunc_def k_def sgn_if)
  qed
qed

lemma digits_chars:
  "c \<in> set (digits n) \<Longrightarrow> 48 \<le> (of_char c :: nat) \<and> (of_char c :: nat) \<le> 57"
proof (induction n rule: digits.induct)
  case (1 n)
  show ?case
  proof (cases "n < 10")
    case True
    with "1.prems" have "c = char_of (48 + n)" by (simp add: digits.simps)
    with True show ?thesis by simp
  next
    case False
    with "1.prems" have "c \<in> set (digits (n div 10)) \<or> c = char_of (48 + n mod 10)"
      by (subst (asm) digits.simps) auto
    then show ?thesis
    proof
      assume "c \<in> set (digits (n div 10))"
      with False "1.IH" show ?thesis by simp
    next
      assume "c = char_of (48 + n mod 10)"
      moreover have "n mod 10 < 10" by simp
      ultimately show ?thesis by (simp del: mod_less_divisor)
    qed
  qed
qed

lemma char_of_digit:
  "char_of (48::nat) = CHR ''0''" "char_of (49::nat) = CHR ''1''" "char_of (50::nat) = CHR ''2''"
  "char_of (51::nat) = CHR ''3''" "char_of (52::nat) = CHR ''4''" "char_of (53::nat) = CHR ''5''"
  "char_of (54::nat) = CHR ''6''" "char_of (55::nat) = CHR ''7''" "char_of (56::nat) = CHR ''8''"
  "char_of (57::nat) = CHR ''9''"
  by code_simp+

lemma str_int_0: "str_int 0 = ''0''"
  by (simp add: str_int_def digits.simps char_of_digit)


lemma str_int_1e9: "str_int 1000000000 = ''1000000000''"
  by (simp add: str_int_def digits.simps char_of_digit)






lemma finite_val_encoded: "finite_val v \<Longrightarrow> num_to_str v = Inr (encoded v)"
  by (cases v rule: finite_val.cases) (simp_all add: encoded_def)

subsection \<open>Stripping twice\<close>

lemma last_dropWhile: "dropWhile P xs \<noteq> [] \<Longrightarrow> last (dropWhile P xs) = last xs"
  by (metis last_appendR takeWhile_dropWhile_id)

lemma strip_strip: "strip (strip t) = strip t"
proof -
  define u where "u = dropWhile is_space t"
  define w where "w = dropWhile is_space (rev u)"
  have v: "strip t = rev w" by (simp add: strip_def u_def w_def)
  have head: "dropWhile is_space (rev w) = rev w"
  proof (cases "w = []")
    case True
    then show ?thesis by simp
  next
    case False
    then have "last w = last (rev u)" unfolding w_def by (rule last_dropWhile)
    moreover from False have "u \<noteq> []" by (auto simp: w_def)
    ultimately have "hd (rev w) = hd u" using False by (simp add: hd_rev last_rev)
    moreover have "\<not> is_space (hd u)" using \<open>u \<noteq> []\<close> unfolding u_def by (rule hd_dropWhile)
    ultimately show ?thesis by (simp add: dropWhile_eq_self_iff)
  qed
  have "strip (rev w) = rev (dropWhile is_space w)"
    by (simp add: strip_def head)
  also have "dropWhile is_space w = w" by (simp add: w_def)
  finally show ?thesis by (simp add: v)
qed

subsection \<open>The characters of the commands\<close>

lemma digit_command_char:
  "48 \<le> (of_char c :: nat) \<Longrightarrow> (of_char c :: nat) \<le> 57 \<Longrightarrow> command_char c"
  by (auto simp: command_char_def is_ascii_def)

lemma str_int_command_chars: "list_all command_char (str_int i)"
  by (auto simp: str_int_def list_all_iff digit_command_char dest!: digits_chars)
     (simp add: command_char_def is_ascii_def)

lemma encoded_command_chars: "list_all command_char (encoded v)"
proof (cases "num_to_str v")
  case (Inl e)
  then show ?thesis by (simp add: encoded_def)
next
  case (Inr n)
  have z: "list_all command_char ''0''" by (simp add: command_char_def is_ascii_def)
  from Inr have "n = ''0'' \<or> (\<exists>i. n = str_int i)"
    by (cases v rule: num_to_str.cases) (auto split: sum.splits)
  with z Inr show ?thesis by (auto simp: encoded_def str_int_command_chars)
qed


lemma command_chars_ascii: "list_all command_char t \<Longrightarrow> list_all is_ascii t"
  by (simp add: list_all_iff command_char_def)


lemma encode_encoded: "encode (encoded v) = encoded v"
  by (simp add: encode_ascii command_chars_ascii encoded_command_chars)

subsection \<open>What a call sends\<close>

lemma dispatcher_events:
  "done_by s (dispatcher d a s) =
     (case alias_code d (lower a) of
        Some c \<Rightarrow> [Write (c @ [CHR 0x0D]), Flush, Sleep 100, Log INFO,
                   Write (''>GH'' @ [CHR 0x0D]), Flush, Sleep 100]
      | None \<Rightarrow> [Log WARNING]) @
     (if d = Vibration then [] else [Write (''>GH'' @ [CHR 0x0D]), Flush, Sleep 100])"
  by (cases d) (simp_all add: done_by_def dispatch_defs simple_defs prim_defs)

lemma dispatcher_sends:
  "sent_by s (dispatcher d a s) =
     (case alias_code d (lower a) of None \<Rightarrow> [] | Some c \<Rightarrow> [c @ [CHR 0x0D]]) @
     replicate (known d a + (if d = Vibration then 0 else 1)) (''>GH'' @ [CHR 0x0D])"
  unfolding sent_by_def dispatcher_events
  by (simp split: option.split)

lemma run_sends:
  assumes "finite_arg op"
  shows "\<exists>s'. run float_repr op s = Inr s' \<and>
     sent_by s s' =
       (case command float_repr op of None \<Rightarrow> [] | Some c \<Rightarrow> [c @ [CHR 0x0D]]) @
       replicate (refreshes op) (''>GH'' @ [CHR 0x0D])"
proof (cases op)
  case (Set_modulation_source a)
  then show ?thesis using dispatcher_sends [of s Modulation_source a] by simp
next
  case (Set_modulation_type a)
  then show ?thesis using dispatcher_sends [of s Modulation_type a] by simp
next
  case (Set_modulation_wave_type a)
  then show ?thesis using dispatcher_sends [of s Modulation_wave_type a] by simp
next
  case (Set_sweep_trigger a)
  then show ?thesis using dispatcher_sends [of s Sweep_trigger a] by simp
next
  case (Set_ref_source a)
  then show ?thesis using dispatcher_sends [of s Ref_source a] by simp
next
  case (Set_vibration a)
  then show ?thesis using dispatcher_sends [of s Vibration a] by simp
qed (use assms in \<open>simp_all add: sent_by_def done_by_def simple_defs numeric_defs plain_defs
       prim_defs finite_val_encoded encode_encoded\<close>)

subsection \<open>The triangle waveform\<close>

text \<open>
  C8. The triangle waveform setter puts the same bytes on the wire as the sine waveform
  setter, the command \<^verbatim>\<open>>SMW0\<close> and the refresh; ramp and square send \<^verbatim>\<open>>SMW1\<close> and
  \<^verbatim>\<open>>SMW2\<close>.
\<close>

theorem triangle_same_code_as_sine:
  "sent_by s (set_modulation_wave_triangle s) = sent_by s (set_modulation_wave_sine s) \<and>
   sent_by s (set_modulation_wave_sine s) = [''>SMW0'' @ [CHR 0x0D], ''>GH'' @ [CHR 0x0D]] \<and>
   sent_by s (set_modulation_wave_triangle s) = [''>SMW0'' @ [CHR 0x0D], ''>GH'' @ [CHR 0x0D]] \<and>
   sent_by s (set_modulation_wave_ramp s) = [''>SMW1'' @ [CHR 0x0D], ''>GH'' @ [CHR 0x0D]] \<and>
   sent_by s (set_modulation_wave_square s) = [''>SMW2'' @ [CHR 0x0D], ''>GH'' @ [CHR 0x0D]]"
  by (simp add: sent_by_def done_by_def simple_defs prim_defs)

theorem triangle_same_code_as_sine_witness:
  "sent_by example_state (set_modulation_wave_triangle example_state) =
     sent_by example_state (set_modulation_wave_sine example_state) \<and>
   sent_by example_state (set_modulation_wave_ramp example_state) \<noteq>
     sent_by example_state (set_modulation_wave_sine example_state) \<and>
   sent_by example_state (set_modulation_wave_square example_state) \<noteq>
     sent_by example_state (set_modulation_wave_sine example_state) \<and>
   sent_by example_state (set_modulation_wave_square example_state) \<noteq>
     sent_by example_state (set_modulation_wave_ramp example_state)"
  using triangle_same_code_as_sine [of example_state] by simp

subsection \<open>Lower case of the names used in the examples\<close>

lemma lower_Ramp: "lower ''Ramp'' = ''ramp''"
  by code_simp

lemma lower_int: "lower ''int'' = ''int''"
  by code_simp

lemma lower_FreeRun: "lower ''FreeRun'' = ''freerun''"
  by code_simp

lemma lower_OFF: "lower ''OFF'' = ''off''"
  by code_simp

lemma lower_laser: "lower ''Laser'' = ''laser''"
  by code_simp

lemma lower_maybe: "lower ''Maybe'' = ''maybe''"
  by code_simp

subsection \<open>Refreshes after a call\<close>

text \<open>
  C1 (amended). Every call of a setter whose numeric argument can be encoded returns, and
  writes the command of the table for the call (nothing for a name that its setting does
  not know) followed by \<open>refreshes op\<close> refresh commands \<^verbatim>\<open>>GH\<close> and nothing else:
  exactly one after every setter that sends its command itself; none after
  \<^verbatim>\<open>vibrate_30ms\<close>, and none after the \<^verbatim>\<open>>GH\<close> of \<^verbatim>\<open>refresh_lcd_home\<close> itself; two after a
  dispatching setter other than \<^verbatim>\<open>set_vibration\<close> called with a known name (the refresh of
  the setter it delegates to and its own) and one when the name is unknown;
  \<^verbatim>\<open>set_vibration\<close> is followed by one refresh for a known name and by none otherwise.
\<close>

theorem refreshes_after_call:
  assumes "finite_arg op"
  shows "\<exists>s'. run float_repr op s = Inr s' \<and>
     sent_by s s' =
       (case command float_repr op of None \<Rightarrow> [] | Some c \<Rightarrow> [c @ [CHR 0x0D]]) @
       replicate (refreshes op) (''>GH'' @ [CHR 0x0D])"
  using assms by (rule run_sends)

theorem refreshes_after_call_witness:
  "(\<exists>s'. run example_repr Set_sweep_on example_state = Inr s' \<and>
      sent_by example_state s' = [''>SS5'' @ [CHR 0x0D], ''>GH'' @ [CHR 0x0D]]) \<and>
   (\<exists>s'. run example_repr (Set_modulation_wave_type ''Ramp'') example_state = Inr s' \<and>
      sent_by example_state s' =
        [''>SMW1'' @ [CHR 0x0D], ''>GH'' @ [CHR 0x0D], ''>GH'' @ [CHR 0x0D]]) \<and>
   (\<exists>s'. run example_repr Vibrate_30ms example_state = Inr s' \<and>
      sent_by example_state s' = [''>GV'' @ [CHR 0x0D]])"
  using refreshes_after_call [of Set_sweep_on example_repr example_state]
    refreshes_after_call [of "Set_modulation_wave_type ''Ramp''" example_repr example_state]
    refreshes_after_call [of Vibrate_30ms example_repr example_state]
  by (simp add: lower_Ramp)

text \<open>
  The claim as stated fails: \<^verbatim>\<open>set_modulation_source('int')\<close> is followed by two refresh
  commands, not one.
\<close>

theorem one_refresh_counterexample:
  "sent_by example_state (set_modulation_source ''int'' example_state) =
     [''>SMI0'' @ [CHR 0x0D], ''>GH'' @ [CHR 0x0D], ''>GH'' @ [CHR 0x0D]]"
  by (simp add: sent_by_def done_by_def dispatch_defs simple_defs prim_defs lower_int)

subsection \<open>The dispatching setters and the table\<close>

text \<open>
  C2 (amended). For each of the six dispatching setters and every text \<open>a\<close>, compared in
  lower case: when \<open>a\<close> names an option of the setting, the first bytes written are the
  code of the table and a CR, followed only by refresh commands; when it does not, no
  setting command is written and a warning is logged, but the five setters other than
  \<^verbatim>\<open>set_vibration\<close> still write the refresh command \<^verbatim>\<open>>GH\<close> and its CR, and only
  \<^verbatim>\<open>set_vibration\<close> writes no bytes at all.
\<close>

theorem dispatcher_follows_table:
  "sent_by s (dispatcher d a s) =
     (case alias_code d (lower a) of
        Some c \<Rightarrow> [c @ [CHR 0x0D], ''>GH'' @ [CHR 0x0D]]
      | None \<Rightarrow> []) @
     (if d = Vibration then [] else [''>GH'' @ [CHR 0x0D]]) \<and>
   (alias_code d (lower a) = None \<longrightarrow>
      done_by s (dispatcher d a s) =
        Log WARNING #
        (if d = Vibration then [] else [Write (''>GH'' @ [CHR 0x0D]), Flush, Sleep 100]))"
  unfolding sent_by_def dispatcher_events by (simp split: option.split)

theorem dispatcher_follows_table_witness:
  "sent_by example_state (set_sweep_trigger ''FreeRun'' example_state) =
     [''>SS70'' @ [CHR 0x0D], ''>GH'' @ [CHR 0x0D], ''>GH'' @ [CHR 0x0D]] \<and>
   sent_by example_state (set_vibration ''OFF'' example_state) =
     [''>SV0'' @ [CHR 0x0D], ''>GH'' @ [CHR 0x0D]] \<and>
   done_by example_state (set_modulation_type ''Laser'' example_state) =
     [Log WARNING, Write (''>GH'' @ [CHR 0x0D]), Flush, Sleep 100] \<and>
   done_by example_state (set_vibration ''Laser'' example_state) = [Log WARNING]"
  using dispatcher_follows_table [of example_state Sweep_trigger "''FreeRun''"]
    dispatcher_follows_table [of example_state Vibration "''OFF''"]
    dispatcher_follows_table [of example_state Modulation_type "''Laser''"]
    dispatcher_follows_table [of example_state Vibration "''Laser''"]
  by (simp add: lower_FreeRun lower_OFF lower_laser)

text \<open>
  The claim as stated fails: \<^verbatim>\<open>set_modulation_source('Laser')\<close> names no source, and the
  refresh command is written all the same.
\<close>

theorem unknown_alias_counterexample:
  "alias_code Modulation_source (lower ''Laser'') = None \<and>
   sent_by example_state (set_modulation_source ''Laser'' example_state) = [''>GH'' @ [CHR 0x0D]]"
  by (simp add: sent_by_def done_by_def dispatch_defs simple_defs prim_defs lower_laser)

subsection \<open>The vibration setter and an unknown option\<close>

text \<open>
  C10. \<^verbatim>\<open>set_vibration\<close> has no refresh of its own: called with an option that is
  neither \<^verbatim>\<open>on\<close> nor \<^verbatim>\<open>off\<close> in lower case, it logs a warning and writes no bytes at
  all. Each of the other five dispatching setters, called with a name it does not know,
  still writes the refresh command \<^verbatim>\<open>>GH\<close>.
\<close>

theorem set_vibration_unknown_option:
  assumes "lower v \<noteq> ''on''" and "lower v \<noteq> ''off''"
  shows "done_by s (set_vibration v s) = [Log WARNING] \<and>
         sent_by s (set_vibration v s) = [] \<and>
         (alias_code Modulation_source (lower a) = None \<longrightarrow>
            sent_by s (set_modulation_source a s) = [''>GH'' @ [CHR 0x0D]]) \<and>
         (alias_code Modulation_type (lower a) = None \<longrightarrow>
            sent_by s (set_modulation_type a s) = [''>GH'' @ [CHR 0x0D]]) \<and>
         (alias_code Modulation_wave_type (lower a) = None \<longrightarrow>
            sent_by s (set_modulation_wave_type a s) = [''>GH'' @ [CHR 0x0D]]) \<and>
         (alias_code Sweep_trigger (lower a) = None \<longrightarrow>
            sent_by s (set_sweep_trigger a s) = [''>GH'' @ [CHR 0x0D]]) \<and>
         (alias_code Ref_source (lower a) = None \<longrightarrow>
            sent_by s (set_ref_source a s) = [''>GH'' @ [CHR 0x0D]])"
proof -
  have v: "alias_code Vibration (lower v) = None" using assms by simp
  have 1: "done_by s (set_vibration v s) = [Log WARNING]"
    using dispatcher_events [of s Vibration v] v by simp
  have 2: "sent_by s (set_vibration v s) = []"
    using dispatcher_sends [of s Vibration v] v by simp
  have other: "alias_code d (lower a) = None \<longrightarrow> d \<noteq> Vibration \<longrightarrow>
      sent_by s (dispatcher d a s) = [''>GH'' @ [CHR 0x0D]]" for d
    unfolding dispatcher_sends by simp
  have 3: "alias_code Modulation_source (lower a) = None \<longrightarrow>
            sent_by s (set_modulation_source a s) = [''>GH'' @ [CHR 0x0D]]"
    using other [of Modulation_source] by simp
  have 4: "alias_code Modulation_type (lower a) = None \<longrightarrow>
            sent_by s (set_modulation_type a s) = [''>GH'' @ [CHR 0x0D]]"
    using other [of Modulation_type] by simp
  have 5: "alias_code Modulation_wave_type (lower a) = None \<longrightarrow>
            sent_by s (set_modulation_wave_type a s) = [''>GH'' @ [CHR 0x0D]]"
    using other [of Modulation_wave_type] by simp
  have 6: "alias_code Sweep_trigger (lower a) = None \<longrightarrow>
            sent_by s (set_sweep_trigger a s) = [''>GH'' @ [CHR 0x0D]]"
    using other [of Sweep_trigger] by simp
  have 7: "alias_code Ref_source (lower a) = None \<longrightarrow>
            sent_by s (set_ref_source a s) = [''>GH'' @ [CHR 0x0D]]"
    using other [of Ref_source] by simp
  from 1 2 3 4 5 6 7 show ?thesis by (intro conjI)
qed

theorem set_vibration_unknown_option_witness:
  "done_by example_state (set_vibration ''Maybe'' example_state) = [Log WARNING] \<and>
   sent_by example_state (set_vibration ''Maybe'' example_state) = [] \<and>
   sent_by example_state (set_ref_source ''Maybe'' example_state) = [''>GH'' @ [CHR 0x0D]] \<and>
   sent_by example_state (set_sweep_trigger ''Maybe'' example_state) = [''>GH'' @ [CHR 0x0D]]"
  using set_vibration_unknown_option [where v = "''Maybe''" and a = "''Maybe''" and s = example_state]
  by (simp add: lower_maybe)

subsection \<open>The preset\<close>

lemma num_to_str_default: "num_to_str set_frequency_default = Inr ''1000000000''"
  by (simp add: set_frequency_default_def str_int_1e9)

lemma set_preset_events:
  "\<exists>s'. set_preset float_repr s = Inr s' \<and>
     done_by s s' =
       [Write (''>SF0'' @ [CHR 0x0D]), Flush, Sleep 100, Log INFO,
        Write (''>GH'' @ [CHR 0x0D]), Flush, Sleep 100,
        Write (''>F1000000000'' @ [CHR 0x0D]), Flush, Sleep 100, Log INFO,
        Write (''>GH'' @ [CHR 0x0D]), Flush, Sleep 100,
        Write (''>SA0'' @ [CHR 0x0D]), Flush, Sleep 100, Log INFO,
        Write (''>GH'' @ [CHR 0x0D]), Flush, Sleep 100,
        Write (''>SM0'' @ [CHR 0x0D]), Flush, Sleep 100, Log INFO,
        Write (''>GH'' @ [CHR 0x0D]), Flush, Sleep 100,
        Write (''>SS6'' @ [CHR 0x0D]), Flush, Sleep 100, Log INFO,
        Write (''>GH'' @ [CHR 0x0D]), Flush, Sleep 100,
        Write (''>SR0'' @ [CHR 0x0D]), Flush, Sleep 100, Log INFO,
        Write (''>GH'' @ [CHR 0x0D]), Flush, Sleep 100,
        Write (''>GH'' @ [CHR 0x0D]), Flush, Sleep 100]"
  by (simp add: set_preset_def set_frequency_def set_amplitude_def num_to_str_default
      set_amplitude_default_def str_int_0 done_by_def simple_defs prim_defs)

text \<open>
  C3 (amended). One call of \<^verbatim>\<open>set_preset\<close> returns and writes thirteen commands: RF off
  (\<^verbatim>\<open>>SF0\<close>), the frequency default of 1 GHz (\<^verbatim>\<open>>F1000000000\<close>), the amplitude default of
  0 dBm (\<^verbatim>\<open>>SA0\<close>), modulation off (\<^verbatim>\<open>>SM0\<close>), sweep off (\<^verbatim>\<open>>SS6\<close>) and reference
  source internal (\<^verbatim>\<open>>SR0\<close>), in this order, each followed by the refresh \<^verbatim>\<open>>GH\<close> of its
  own setter, and then one more refresh. No command that sets a sub-parameter of the sweep
  or of the modulation is among them.
\<close>

theorem set_preset_sends:
  "\<exists>s'. set_preset float_repr s = Inr s' \<and>
     sent_by s s' =
       [''>SF0'' @ [CHR 0x0D], ''>GH'' @ [CHR 0x0D],
        ''>F1000000000'' @ [CHR 0x0D], ''>GH'' @ [CHR 0x0D],
        ''>SA0'' @ [CHR 0x0D], ''>GH'' @ [CHR 0x0D],
        ''>SM0'' @ [CHR 0x0D], ''>GH'' @ [CHR 0x0D],
        ''>SS6'' @ [CHR 0x0D], ''>GH'' @ [CHR 0x0D],
        ''>SR0'' @ [CHR 0x0D], ''>GH'' @ [CHR 0x0D],
        ''>GH'' @ [CHR 0x0D]] \<and>
     length (sent_by s s') = 13 \<and>
     filter (\<lambda>w. w \<noteq> ''>GH'' @ [CHR 0x0D]) (sent_by s s') =
       [''>SF0'' @ [CHR 0x0D], ''>F1000000000'' @ [CHR 0x0D], ''>SA0'' @ [CHR 0x0D],
        ''>SM0'' @ [CHR 0x0D], ''>SS6'' @ [CHR 0x0D], ''>SR0'' @ [CHR 0x0D]] \<and>
     list_all (\<lambda>w. list_all (\<lambda>p. \<not> starts_with p w) sub_parameter_prefixes) (sent_by s s')"
proof -
  from set_preset_events [of float_repr s] obtain s' where
    r: "set_preset float_repr s = Inr s'" and d: "done_by s s' =
       [Write (''>SF0'' @ [CHR 0x0D]), Flush, Sleep 100, Log INFO,
        Write (''>GH'' @ [CHR 0x0D]), Flush, Sleep 100,
        Write (''>F1000000000'' @ [CHR 0x0D]), Flush, Sleep 100, Log INFO,
        Write (''>GH'' @ [CHR 0x0D]), Flush, Sleep 100,
        Write (''>SA0'' @ [CHR 0x0D]), Flush, Sleep 100, Log INFO,
        Write (''>GH'' @ [CHR 0x0D]), Flush, Sleep 100,
        Write (''>SM0'' @ [CHR 0x0D]), Flush, Sleep 100, Log INFO,
        Write (''>GH'' @ [CHR 0x0D]), Flush, Sleep 100,
        Write (''>SS6'' @ [CHR 0x0D]), Flush, Sleep 100, Log INFO,
        Write (''>GH'' @ [CHR 0x0D]), Flush, Sleep 100,
        Write (''>SR0'' @ [CHR 0x0D]), Flush, Sleep 100, Log INFO,
        Write (''>GH'' @ [CHR 0x0D]), Flush, Sleep 100,
        Write (''>GH'' @ [CHR 0x0D]), Flush, Sleep 100]"
    by blast
  have "sent_by s s' =
       [''>SF0'' @ [CHR 0x0D], ''>GH'' @ [CHR 0x0D],
        ''>F1000000000'' @ [CHR 0x0D], ''>GH'' @ [CHR 0x0D],
        ''>SA0'' @ [CHR 0x0D], ''>GH'' @ [CHR 0x0D],
        ''>SM0'' @ [CHR 0x0D], ''>GH'' @ [CHR 0x0D],
        ''>SS6'' @ [CHR 0x0D], ''>GH'' @ [CHR 0x0D],
        ''>SR0'' @ [CHR 0x0D], ''>GH'' @ [CHR 0x0D],
        ''>GH'' @ [CHR 0x0D]]"
    unfolding sent_by_def d by simp
  then show ?thesis using r
    by (simp add: sub_parameter_prefixes_def starts_with_def)
qed

theorem set_preset_sends_witness:
  "\<exists>s'. set_preset example_repr example_state = Inr s' \<and>
     length (sent_by example_state s') = 13 \<and>
     sent_by example_state s' ! 2 = ''>F1000000000'' @ [CHR 0x0D] \<and>
     sent_by example_state s' ! 11 = ''>GH'' @ [CHR 0x0D] \<and>
     sent_by example_state s' ! 12 = ''>GH'' @ [CHR 0x0D]"
  using set_preset_sends [of example_repr example_state] by auto

text \<open>
  The claim as stated fails: the commands written by one call of \<^verbatim>\<open>set_preset\<close> are
  thirteen, not seven.
\<close>

theorem seven_commands_counterexample:
  "map_sum id (length \<circ> sent_by example_state) (set_preset example_repr example_state) = Inr 13"
  using set_preset_events [of example_repr example_state]
  by (auto simp: sent_by_def)

subsection \<open>The numeric-parameter encoder\<close>


lemma num_to_str_finite:
  "num_to_str (PyFloat (Finite m e)) = Inr (str_int (trunc (float_val m e)))"
  by (simp add: py_int_trunc del: py_int.simps)

lemma trunc_1e9: "trunc 1000000000 = 1000000000"
  by (simp add: trunc_def)

lemma nearest_100_7:
  "\<bar>float_val 7086132538690765 (- 46) - 100.7\<bar> \<le> 2 powi (- 47)"
  by (simp add: float_val_def power_int_def power_one_over abs_le_iff field_simps)


lemma float_val_1e9: "float_val 1953125 9 = 1000000000"
  by (simp add: float_val_def)






subsection \<open>Frequency, then amplitude\<close>

text \<open>
  C5. \<^verbatim>\<open>set_frequency(1e9)\<close> followed by \<^verbatim>\<open>set_amplitude(0)\<close> returns and does exactly
  this, in this order: it writes \<^verbatim>\<open>>F1000000000\<close> and a CR, flushes and pauses 100 ms, logs,
  writes the refresh \<^verbatim>\<open>>GH\<close> and a CR, flushes and pauses 100 ms; then the same with
  \<^verbatim>\<open>>SA0\<close>. Every write is followed by a flush and a pause of 100 ms before the next
  write. The float \<^verbatim>\<open>1e9\<close> is any \<open>Finite m e\<close> that stands for 1000000000.
\<close>

theorem set_frequency_then_set_amplitude:
  assumes "float_val m e = 1000000000"
  shows "\<exists>s1. set_frequency (PyFloat (Finite m e)) s = Inr s1 \<and>
     done_by s (set_amplitude float_repr (PyInt 0) s1) =
       [Write (''>F1000000000'' @ [CHR 0x0D]), Flush, Sleep 100, Log INFO,
        Write (''>GH'' @ [CHR 0x0D]), Flush, Sleep 100,
        Write (''>SA0'' @ [CHR 0x0D]), Flush, Sleep 100, Log INFO,
        Write (''>GH'' @ [CHR 0x0D]), Flush, Sleep 100] \<and>
     sent_by s (set_amplitude float_repr (PyInt 0) s1) =
       [''>F1000000000'' @ [CHR 0x0D], ''>GH'' @ [CHR 0x0D],
        ''>SA0'' @ [CHR 0x0D], ''>GH'' @ [CHR 0x0D]]"
proof -
  have "num_to_str (PyFloat (Finite m e)) = Inr ''1000000000''"
    using assms by (simp add: num_to_str_finite trunc_1e9 str_int_1e9 del: num_to_str.simps)
  then show ?thesis
    by (simp add: set_frequency_def set_amplitude_def str_int_0 sent_by_def done_by_def prim_defs
        del: num_to_str.simps)
qed

theorem set_frequency_then_set_amplitude_witness:
  "float_val 1953125 9 = 1000000000 \<and>
   (\<exists>s1. set_frequency (PyFloat (Finite 1953125 9)) example_state = Inr s1 \<and>
     sent_by example_state (set_amplitude example_repr (PyInt 0) s1) =
       [''>F1000000000'' @ [CHR 0x0D], ''>GH'' @ [CHR 0x0D],
        ''>SA0'' @ [CHR 0x0D], ''>GH'' @ [CHR 0x0D]])"
  using set_frequency_then_set_amplitude [OF float_val_1e9, of example_state example_repr]
  by (auto simp: float_val_1e9)

subsection \<open>Opening the port\<close>

text \<open>
  C9. When the port cannot be opened, \<^verbatim>\<open>__init__\<close> makes one attempt, logs an error and
  ends in SystemExit: there is no driver state, and nothing was written. When the port can
  be opened, the driver is constructed on a link with 9600 baud, a timeout of 1 s, RTS/CTS
  and XON/XOFF, after one attempt, with nothing written yet.
\<close>

theorem init_port:
  "(\<not> openable p \<longrightarrow>
      snd (init openable p incoming) = Inl SystemExit \<and>
      writes (fst (init openable p incoming)) = [] \<and>
      fst (init openable p incoming) =
        [Open \<lparr>port = p, baudrate = 9600, timeout = 1, rtscts = True, xonxoff = True\<rparr>,
         Log ERROR]) \<and>
   (openable p \<longrightarrow>
      (\<exists>st. snd (init openable p incoming) = Inr st \<and>
         serial_link st =
           \<lparr>port = p, baudrate = 9600, timeout = 1, rtscts = True, xonxoff = True\<rparr> \<and>
         events st = [Open (serial_link st)] \<and> wire st = [] \<and> rx st = incoming \<and>
         fst (init openable p incoming) = [Open (serial_link st)]))"
  by (simp add: init_def Let_def wire_def)

theorem init_port_witness:
  "snd (init only_ttyACM0 ''/dev/ttyUSB0'' []) = Inl SystemExit \<and>
   writes (fst (init only_ttyACM0 ''/dev/ttyUSB0'' [])) = [] \<and>
   (\<exists>st. snd (init only_ttyACM0 ''/dev/ttyACM0'' []) = Inr st \<and>
      baudrate (serial_link st) = 9600 \<and> timeout (serial_link st) = 1 \<and>
      rtscts (serial_link st) \<and> xonxoff (serial_link st) \<and> wire st = [])"
  using init_port [of only_ttyACM0 "''/dev/ttyUSB0''" "[]"]
    init_port [of only_ttyACM0 "''/dev/ttyACM0''" "[]"]
  by (auto simp: only_ttyACM0_def)

subsection \<open>Queries\<close>

lemma readline_parts: "fst (readline bs) @ snd (readline bs) = bs"
  by (simp add: readline_def Let_def)

lemma readline_line:
  assumes "LF \<in> set bs"
  shows "\<exists>p. fst (readline bs) = p @ [LF] \<and> LF \<notin> set p"
proof -
  let ?p = "takeWhile (\<lambda>c. c \<noteq> LF) bs" and ?r = "dropWhile (\<lambda>c. c \<noteq> LF) bs"
  from assms have "?r \<noteq> []" by (simp add: dropWhile_eq_Nil_conv)
  moreover from this have "hd ?r = LF" using hd_dropWhile [of "\<lambda>c. c \<noteq> LF" bs] by simp
  ultimately have "take 1 ?r = [LF]" by (cases ?r) simp_all
  moreover have "LF \<notin> set ?p" by (auto dest: set_takeWhileD)
  ultimately show ?thesis by (simp add: readline_def Let_def)
qed

lemma readline_timeout: "LF \<notin> set bs \<Longrightarrow> readline bs = (bs, [])"
proof -
  assume "LF \<notin> set bs"
  then have tw: "takeWhile (\<lambda>c. c \<noteq> LF) bs = bs" and dw: "dropWhile (\<lambda>c. c \<noteq> LF) bs = []"
    by (auto simp: takeWhile_eq_all_conv dropWhile_eq_Nil_conv)
  show ?thesis unfolding readline_def Let_def tw dw by simp
qed

lemma strip_parts:
  "\<exists>a b. t = a @ strip t @ b \<and> list_all is_space a \<and> list_all is_space b"
proof -
  let ?a = "takeWhile is_space t" and ?u = "dropWhile is_space t"
  let ?b = "rev (takeWhile is_space (rev ?u))"
  have "?u = strip t @ ?b"
    unfolding strip_def
    by (metis rev_append rev_rev_ident takeWhile_dropWhile_id)
  then have "t = ?a @ strip t @ ?b" by (metis takeWhile_dropWhile_id)
  moreover have "list_all is_space ?a" by (auto simp: list_all_iff dest: set_takeWhileD)
  moreover have "list_all is_space ?b" by (auto simp: list_all_iff dest: set_takeWhileD)
  ultimately show ?thesis by blast
qed

lemma strip_head: "dropWhile is_space (strip t) = strip t"
proof -
  define u where "u = dropWhile is_space t"
  define w where "w = dropWhile is_space (rev u)"
  have v: "strip t = rev w" by (simp add: strip_def u_def w_def)
  have "dropWhile is_space (rev w) = rev w"
  proof (cases "w = []")
    case True
    then show ?thesis by simp
  next
    case False
    then have "last w = last (rev u)" unfolding w_def by (rule last_dropWhile)
    moreover from False have "u \<noteq> []" by (auto simp: w_def)
    ultimately have "hd (rev w) = hd u" using False by (simp add: hd_rev last_rev)
    moreover have "\<not> is_space (hd u)" using \<open>u \<noteq> []\<close> unfolding u_def by (rule hd_dropWhile)
    ultimately show ?thesis by (simp add: dropWhile_eq_self_iff)
  qed
  then show ?thesis by (simp add: v)
qed

lemma strip_ends:
  assumes "strip t \<noteq> []"
  shows "\<not> is_space (hd (strip t)) \<and> \<not> is_space (last (strip t))"
proof -
  from assms strip_head [of t] have "\<not> is_space (hd (strip t))"
    by (simp add: dropWhile_eq_self_iff)
  moreover have "\<not> is_space (last (strip t))"
  proof -
    define w where "w = dropWhile is_space (rev (dropWhile is_space t))"
    have v: "strip t = rev w" by (simp add: strip_def w_def)
    with assms have "w \<noteq> []" by simp
    then have "\<not> is_space (hd w)" unfolding w_def by (rule hd_dropWhile)
    with \<open>w \<noteq> []\<close> show ?thesis by (simp add: v last_rev)
  qed
  ultimately show ?thesis by simp
qed

lemma utf8_decode_ascii:
  "list_all (\<lambda>n::nat. n < 128) ns \<Longrightarrow> utf8_decode ns = Some ns"
  by (induction ns) simp_all

lemma decode_ascii: "list_all is_ascii bs \<Longrightarrow> decode bs = Inr (code_points bs)"
proof -
  assume "list_all is_ascii bs"
  then have "list_all (\<lambda>n::nat. n < 128) (map of_char bs)"
    by (simp add: list_all_iff is_ascii_def)
  then show ?thesis by (simp add: decode_def utf8_decode_ascii code_points_def)
qed

lemma split2: "y < 64 \<Longrightarrow> (x * 64 + y) div 64 = (x::nat) \<and> (x * 64 + y) mod 64 = y"
  by simp

lemma split3:
  assumes y: "y < 64" and z: "z < 64"
  shows "(x * 4096 + y * 64 + z) div 4096 = (x::nat) \<and>
     (x * 4096 + y * 64 + z) div 64 mod 64 = y \<and> (x * 4096 + y * 64 + z) mod 64 = z"
proof -
  define n where "n = x * 4096 + y * 64 + z"
  have a: "n = (x * 64 + y) * 64 + z" by (simp add: n_def)
  note s = split2 [OF z, of "x * 64 + y", folded a]
  note t = split2 [OF y, of x]
  from s have d: "n div 64 = x * 64 + y" and m: "n mod 64 = z" by (rule conjunct1, rule conjunct2)
  have "n div 4096 = n div 64 div 64" by (simp add: div_mult2_eq [symmetric])
  with d t have "n div 4096 = x" by (simp only:)
  moreover from d t have "n div 64 mod 64 = y" by (simp only:)
  ultimately show ?thesis using m unfolding n_def by (intro conjI)
qed

lemma split4:
  assumes y: "y < 64" and z: "z < 64" and w: "w < 64"
  shows "(x * 262144 + y * 4096 + z * 64 + w) div 262144 = (x::nat) \<and>
     (x * 262144 + y * 4096 + z * 64 + w) div 4096 mod 64 = y \<and>
     (x * 262144 + y * 4096 + z * 64 + w) div 64 mod 64 = z \<and>
     (x * 262144 + y * 4096 + z * 64 + w) mod 64 = w"
proof -
  define n where "n = x * 262144 + y * 4096 + z * 64 + w"
  have a: "n = (x * 4096 + y * 64 + z) * 64 + w" by (simp add: n_def)
  note s = split2 [OF w, of "x * 4096 + y * 64 + z", folded a]
  note t = split3 [OF y z, of x]
  from s have d: "n div 64 = x * 4096 + y * 64 + z" and m: "n mod 64 = w"
    by (rule conjunct1, rule conjunct2)
  have "n div 262144 = n div 64 div 4096" "n div 4096 = n div 64 div 64"
    by (simp_all add: div_mult2_eq [symmetric])
  with d t have "n div 262144 = x" "n div 4096 mod 64 = y" "n div 64 mod 64 = z"
    by (simp_all only:)
  then show ?thesis using m unfolding n_def by (intro conjI)
qed


lemma seq1: "b0 < 0x80 \<Longrightarrow> scalar b0 \<and> utf8 b0 = [char_of b0]"
  by (simp add: scalar_def utf8_def)

lemma seq2:
  assumes "0xC2 \<le> b0" "b0 \<le> 0xDF" "continuation b1"
  shows "scalar ((b0 - 0xC0) * 64 + (b1 - 0x80)) \<and>
     utf8 ((b0 - 0xC0) * 64 + (b1 - 0x80)) = [char_of b0, char_of b1]"
proof -
  define x y where "x = b0 - 0xC0" and "y = b1 - 0x80"
  from assms have b: "b0 = 0xC0 + x" "b1 = 0x80 + y" "2 \<le> x" "x \<le> 31" "y < 64"
    by (auto simp: x_def y_def continuation_def)
  define n where "n = x * 64 + y"
  from b have r: "0x80 \<le> n" "n < 0x800" by (simp_all add: n_def)
  from split2 [OF \<open>y < 64\<close>, of x] have "n div 64 = x" "n mod 64 = y"
    by (simp_all add: n_def)
  with r b show ?thesis
    unfolding x_def [symmetric] y_def [symmetric] n_def [symmetric]
    by (simp add: scalar_def utf8_def)
qed

lemma seq3:
  assumes "0xE0 \<le> b0" "b0 \<le> 0xEF" "(if b0 = 0xE0 then 0xA0 else 0x80) \<le> b1"
    "b1 \<le> (if b0 = 0xED then 0x9F else 0xBF)" "continuation b2"
  shows "scalar ((b0 - 0xE0) * 4096 + (b1 - 0x80) * 64 + (b2 - 0x80)) \<and>
     utf8 ((b0 - 0xE0) * 4096 + (b1 - 0x80) * 64 + (b2 - 0x80)) =
       [char_of b0, char_of b1, char_of b2]"
proof -
  define x y z where "x = b0 - 0xE0" and "y = b1 - 0x80" and "z = b2 - 0x80"
  from assms have b: "b0 = 0xE0 + x" "b1 = 0x80 + y" "b2 = 0x80 + z" "x \<le> 15" "y < 64" "z < 64"
    and e0: "x = 0 \<longrightarrow> 32 \<le> y" and ed: "x = 13 \<longrightarrow> y < 32"
    by (auto simp: x_def y_def z_def continuation_def split: if_splits)
  define n where "n = x * 4096 + y * 64 + z"
  from b e0 have lo: "0x800 \<le> n" unfolding n_def by (cases "x = 0") simp_all
  from b have hi: "n < 0x10000" unfolding n_def by simp
  from b ed have sur: "\<not> (0xD800 \<le> n \<and> n \<le> 0xDFFF)" unfolding n_def
    by (cases "x = 13") auto
  from split3 [OF \<open>y < 64\<close> \<open>z < 64\<close>, of x]
  have "n div 4096 = x" "n div 64 mod 64 = y" "n mod 64 = z"
    by (simp_all add: n_def)
  with lo hi sur b show ?thesis
    unfolding x_def [symmetric] y_def [symmetric] z_def [symmetric] n_def [symmetric]
    by (simp add: scalar_def utf8_def)
qed

lemma seq4:
  assumes "0xF0 \<le> b0" "b0 \<le> 0xF4" "(if b0 = 0xF0 then 0x90 else 0x80) \<le> b1"
    "b1 \<le> (if b0 = 0xF4 then 0x8F else 0xBF)" "continuation b2" "continuation b3"
  shows "scalar ((b0 - 0xF0) * 262144 + (b1 - 0x80) * 4096 + (b2 - 0x80) * 64 + (b3 - 0x80)) \<and>
     utf8 ((b0 - 0xF0) * 262144 + (b1 - 0x80) * 4096 + (b2 - 0x80) * 64 + (b3 - 0x80)) =
       [char_of b0, char_of b1, char_of b2, char_of b3]"
proof -
  define x y z w where "x = b0 - 0xF0" and "y = b1 - 0x80" and "z = b2 - 0x80"
    and "w = b3 - 0x80"
  from assms have b: "b0 = 0xF0 + x" "b1 = 0x80 + y" "b2 = 0x80 + z" "b3 = 0x80 + w"
      "x \<le> 4" "y < 64" "z < 64" "w < 64"
    and f0: "x = 0 \<longrightarrow> 16 \<le> y" and f4: "x = 4 \<longrightarrow> y < 16"
    by (auto simp: x_def y_def z_def w_def continuation_def split: if_splits)
  define n where "n = x * 262144 + y * 4096 + z * 64 + w"
  from b f0 have lo: "0x10000 \<le> n" unfolding n_def by (cases "x = 0") simp_all
  from b f4 have hi: "n < 0x110000" unfolding n_def by (cases "x = 4") simp_all
  from split4 [OF \<open>y < 64\<close> \<open>z < 64\<close> \<open>w < 64\<close>, of x]
  have "n div 262144 = x" "n div 4096 mod 64 = y" "n div 64 mod 64 = z" "n mod 64 = w"
    by (simp_all add: n_def)
  with lo hi b show ?thesis
    unfolding x_def [symmetric] y_def [symmetric] z_def [symmetric] w_def [symmetric]
      n_def [symmetric]
    by (simp add: scalar_def utf8_def)
qed


lemma utf8_decode_sound:
  "utf8_decode ns = Some t \<Longrightarrow> list_all scalar t \<and> concat (map utf8 t) = map char_of ns"
proof (induction ns arbitrary: t rule: utf8_decode.induct)
  case 1
  then show ?case by simp
next
  case (2 b0 bs)
  consider (one) "b0 < 0x80"
    | (two) "\<not> b0 < 0x80" "0xC2 \<le> b0 \<and> b0 \<le> 0xDF"
    | (three) "\<not> b0 < 0x80" "\<not> (0xC2 \<le> b0 \<and> b0 \<le> 0xDF)" "0xE0 \<le> b0 \<and> b0 \<le> 0xEF"
    | (four) "\<not> b0 < 0x80" "\<not> (0xC2 \<le> b0 \<and> b0 \<le> 0xDF)" "\<not> (0xE0 \<le> b0 \<and> b0 \<le> 0xEF)"
        "0xF0 \<le> b0 \<and> b0 \<le> 0xF4"
    | (none) "\<not> b0 < 0x80" "\<not> (0xC2 \<le> b0 \<and> b0 \<le> 0xDF)" "\<not> (0xE0 \<le> b0 \<and> b0 \<le> 0xEF)"
        "\<not> (0xF0 \<le> b0 \<and> b0 \<le> 0xF4)"
    by blast
  then show ?case
  proof cases
    case one
    with "2.prems" obtain u where u: "utf8_decode bs = Some u" and t: "t = b0 # u"
      by auto
    from "2.IH"(1) [OF one u] seq1 [OF one] show ?thesis by (simp add: t)
  next
    case two
    with "2.prems" obtain b1 r u where bs: "bs = b1 # r" and c: "continuation b1"
      and u: "utf8_decode r = Some u" and t: "t = ((b0 - 0xC0) * 64 + (b1 - 0x80)) # u"
      by (auto split: list.splits if_splits)
    from two seq2 [of b0 b1] c
    have "scalar ((b0 - 0xC0) * 64 + (b1 - 0x80)) \<and>
      utf8 ((b0 - 0xC0) * 64 + (b1 - 0x80)) = [char_of b0, char_of b1]" by simp
    with "2.IH"(2) [OF two bs c u] show ?thesis by (simp add: t bs)
  next
    case three
    with "2.prems" obtain b1 b2 r u where bs: "bs = b1 # b2 # r"
      and c: "(if b0 = 0xE0 then 0xA0 else 0x80) \<le> b1 \<and>
                b1 \<le> (if b0 = 0xED then 0x9F else 0xBF) \<and> continuation b2"
      and u: "utf8_decode r = Some u"
      and t: "t = ((b0 - 0xE0) * 4096 + (b1 - 0x80) * 64 + (b2 - 0x80)) # u"
      by (auto split: list.splits if_splits)
    from three seq3 [of b0 b1 b2] c
    have "scalar ((b0 - 0xE0) * 4096 + (b1 - 0x80) * 64 + (b2 - 0x80)) \<and>
      utf8 ((b0 - 0xE0) * 4096 + (b1 - 0x80) * 64 + (b2 - 0x80)) =
        [char_of b0, char_of b1, char_of b2]" by simp
    with "2.IH"(3) [OF three bs refl c u] show ?thesis by (simp add: t bs)
  next
    case four
    with "2.prems" obtain b1 b2 b3 r u where bs: "bs = b1 # b2 # b3 # r"
      and c: "(if b0 = 0xF0 then 0x90 else 0x80) \<le> b1 \<and>
                b1 \<le> (if b0 = 0xF4 then 0x8F else 0xBF) \<and> continuation b2 \<and> continuation b3"
      and u: "utf8_decode r = Some u"
      and t: "t = ((b0 - 0xF0) * 262144 + (b1 - 0x80) * 4096 + (b2 - 0x80) * 64 +
                       (b3 - 0x80)) # u"
      by (auto split: list.splits if_splits)
    from four seq4 [of b0 b1 b2 b3] c
    have "scalar ((b0 - 0xF0) * 262144 + (b1 - 0x80) * 4096 + (b2 - 0x80) * 64 + (b3 - 0x80)) \<and>
      utf8 ((b0 - 0xF0) * 262144 + (b1 - 0x80) * 4096 + (b2 - 0x80) * 64 + (b3 - 0x80)) =
        [char_of b0, char_of b1, char_of b2, char_of b3]" by simp
    with "2.IH"(4) [OF four bs refl refl c u] show ?thesis by (simp add: t bs)
  next
    case none
    with "2.prems" show ?thesis by simp
  qed
qed


lemma of_char_char_of: "k < 256 \<Longrightarrow> of_char (char_of k) = (k::nat)"
  by simp

lemma join_step: "q = a * 64 + b \<Longrightarrow> n = q * 64 + c \<Longrightarrow> n = a * 4096 + b * 64 + (c::nat)"
  by simp

lemma join3: "(n::nat) = (n div 4096) * 4096 + (n div 64 mod 64) * 64 + n mod 64"
proof -
  have 1: "n = n div 64 * 64 + n mod 64" by simp
  have 2: "n div 64 = n div 64 div 64 * 64 + n div 64 mod 64" by simp
  have 3: "n div 64 div 64 = n div 4096" by (simp add: div_mult2_eq [symmetric])
  from join_step [OF 2 1] show ?thesis unfolding 3 .
qed

lemma join4:
  "(n::nat) = (n div 262144) * 262144 + (n div 4096 mod 64) * 4096 + (n div 64 mod 64) * 64 +
     n mod 64"
proof -
  have 1: "n = n div 64 * 64 + n mod 64" by simp
  have 2: "n div 64 = (n div 64 div 4096) * 4096 + (n div 64 div 64 mod 64) * 64 + n div 64 mod 64"
    by (rule join3)
  have 3: "n div 64 div 4096 = n div 262144" "n div 64 div 64 = n div 4096"
    by (simp_all add: div_mult2_eq [symmetric])
  have "q = a * 4096 + b * 64 + c \<Longrightarrow> n = q * 64 + d \<Longrightarrow>
      n = a * 262144 + b * 4096 + c * 64 + (d::nat)" for q a b c d
    by simp
  from this [OF 2 1] show ?thesis unfolding 3 .
qed


lemma dec2:
  "2 \<le> x \<Longrightarrow> x \<le> 31 \<Longrightarrow> y < 64 \<Longrightarrow>
     utf8_decode ((0xC0 + x) # (0x80 + y) # r) = map_option (Cons (x * 64 + y)) (utf8_decode r)"
  by (simp add: continuation_def)

lemma dec3:
  "x \<le> 15 \<Longrightarrow> y < 64 \<Longrightarrow> z < 64 \<Longrightarrow> (x = 0 \<longrightarrow> 32 \<le> y) \<Longrightarrow> (x = 13 \<longrightarrow> y < 32) \<Longrightarrow>
     utf8_decode ((0xE0 + x) # (0x80 + y) # (0x80 + z) # r) =
       map_option (Cons (x * 4096 + y * 64 + z)) (utf8_decode r)"
  by (auto simp: continuation_def)

lemma dec4:
  "x \<le> 4 \<Longrightarrow> y < 64 \<Longrightarrow> z < 64 \<Longrightarrow> w < 64 \<Longrightarrow> (x = 0 \<longrightarrow> 16 \<le> y) \<Longrightarrow> (x = 4 \<longrightarrow> y < 16) \<Longrightarrow>
     utf8_decode ((0xF0 + x) # (0x80 + y) # (0x80 + z) # (0x80 + w) # r) =
       map_option (Cons (x * 262144 + y * 4096 + z * 64 + w)) (utf8_decode r)"
  by (auto simp: continuation_def)

lemma utf8_decode_utf8:
  assumes "scalar n"
  shows "utf8_decode (map of_char (utf8 n) @ r) = map_option (Cons n) (utf8_decode r)"
proof -
  consider (one) "n < 0x80" | (two) "0x80 \<le> n" "n < 0x800" | (three) "0x800 \<le> n" "n < 0x10000"
    | (four) "0x10000 \<le> n"
    by linarith
  then show ?thesis
  proof cases
    case one
    then show ?thesis by (simp add: utf8_def)
  next
    case two
    define x y where "x = n div 64" and "y = n mod 64"
    have n: "n = x * 64 + y" by (simp add: x_def y_def)
    have y: "y < 64" by (simp add: y_def)
    from two n y have x: "2 \<le> x" "x \<le> 31" by simp_all
    from two have "utf8 n = [char_of (0xC0 + x), char_of (0x80 + y)]"
      by (simp add: utf8_def x_def y_def)
    with x y have "map of_char (utf8 n) @ r = (0xC0 + x) # (0x80 + y) # r" by simp
    with dec2 [OF x y, of r] show ?thesis by (simp only: n)
  next
    case three
    define x y z where "x = n div 4096" and "y = n div 64 mod 64" and "z = n mod 64"
    have n: "n = x * 4096 + y * 64 + z" unfolding x_def y_def z_def by (rule join3)
    have yz: "y < 64" "z < 64" by (simp_all add: y_def z_def)
    from three n yz have x: "x \<le> 15" by simp
    from three n yz have e0: "x = 0 \<longrightarrow> 32 \<le> y" by auto
    from assms three n yz have ed: "x = 13 \<longrightarrow> y < 32" by (auto simp: scalar_def)
    from three have "utf8 n = [char_of (0xE0 + x), char_of (0x80 + y), char_of (0x80 + z)]"
      by (simp add: utf8_def x_def y_def z_def)
    with x yz have "map of_char (utf8 n) @ r = (0xE0 + x) # (0x80 + y) # (0x80 + z) # r" by simp
    with dec3 [OF x yz e0 ed, of r] show ?thesis by (simp only: n)
  next
    case four
    define x y z w where "x = n div 262144" and "y = n div 4096 mod 64"
      and "z = n div 64 mod 64" and "w = n mod 64"
    have n: "n = x * 262144 + y * 4096 + z * 64 + w" unfolding x_def y_def z_def w_def
      by (rule join4)
    have yzw: "y < 64" "z < 64" "w < 64" by (simp_all add: y_def z_def w_def)
    from assms have hi: "n < 0x110000" by (simp add: scalar_def)
    from hi n yzw have x: "x \<le> 4" by simp
    from four n yzw have f0: "x = 0 \<longrightarrow> 16 \<le> y" by auto
    from hi n yzw have f4: "x = 4 \<longrightarrow> y < 16" by auto
    from four have "utf8 n = [char_of (0xF0 + x), char_of (0x80 + y), char_of (0x80 + z),
        char_of (0x80 + w)]"
      by (simp add: utf8_def x_def y_def z_def w_def)
    with x yzw have "map of_char (utf8 n) @ r =
        (0xF0 + x) # (0x80 + y) # (0x80 + z) # (0x80 + w) # r" by simp
    with dec4 [OF x yzw f0 f4, of r] show ?thesis by (simp only: n)
  qed
qed


lemma utf8_decode_complete:
  "list_all scalar t \<Longrightarrow> utf8_decode (map of_char (concat (map utf8 t))) = Some t"
  by (induction t) (simp_all add: utf8_decode_utf8)

lemma decode_iff: "decode bs = Inr t \<longleftrightarrow> list_all scalar t \<and> concat (map utf8 t) = bs"
proof
  assume "decode bs = Inr t"
  then have "utf8_decode (map of_char bs) = Some t"
    by (simp add: decode_def split: option.splits)
  from utf8_decode_sound [OF this] show "list_all scalar t \<and> concat (map utf8 t) = bs"
    by (simp add: comp_def)
next
  assume "list_all scalar t \<and> concat (map utf8 t) = bs"
  with utf8_decode_complete [of t] show "decode bs = Inr t"
    by (auto simp: decode_def)
qed

lemma decode_raises:
  "decode bs = Inl e \<longleftrightarrow> e = UnicodeDecodeError \<and> \<not> (\<exists>t. list_all scalar t \<and> concat (map utf8 t) = bs)"
  using decode_iff [of bs] by (cases "decode bs") (auto simp: decode_def split: option.splits)

lemma is_space_list:
  "is_space n \<longleftrightarrow>
     n \<in> {9..13} \<union> {28..32} \<union> {0x85, 0xA0, 0x1680} \<union> {0x2000..0x200A} \<union>
       {0x2028, 0x2029, 0x202F, 0x205F, 0x3000}"
  by (auto simp: is_space_def)

lemma send_cmd_resp_eq:
  "send_cmd_resp cmd s =
     (map_sum id (strip \<circ> strip) (decode (fst (readline (rx s)))),
      s\<lparr>events := events s @ [Write (encode cmd @ [CHR 0x0D]), Flush,
                                ReadLine (fst (readline (rx s)))],
        rx := snd (readline (rx s))\<rparr>)"
  by (simp add: send_cmd_resp_def emit_def EOL_def Let_def split: prod.split sum.split)

lemma readline_example: "readline ('' 23.5 '' @ [CHR 0x0A]) = ('' 23.5 '' @ [CHR 0x0A], [])"
  by (simp add: readline_def LF_def)

lemma strip_example: "strip (code_points ('' 23.5 '' @ [CHR 0x0A])) = code_points ''23.5''"
  by (simp add: strip_def code_points_def is_space_def)

lemma ascii_example: "list_all is_ascii ('' 23.5 '' @ [CHR 0x0A])"
  by (simp add: is_ascii_def)

text \<open>
  C6 (amended). A query (\<^verbatim>\<open>get_temperature\<close> with \<^verbatim>\<open>>RT\<close>, \<^verbatim>\<open>get_current\<close> with \<^verbatim>\<open>>RC\<close>)
  writes its command and a CR, flushes, reads one line and does nothing else on the link:
  no pause follows. The line is the pending bytes up to and including the first line feed,
  or all of them when there is none. When the line is well-formed UTF-8, the query returns
  its text stripped twice, which is the text stripped once: the text without the white
  space at its two ends. When the line is not well-formed UTF-8, the query raises
  UnicodeDecodeError and returns nothing. For the response \<^verbatim>\<open>" 23.5 \n"\<close> it returns
  \<^verbatim>\<open>23.5\<close>.
\<close>

theorem query_reads_one_line:
  "get_temperature s =
     (map_sum id (strip \<circ> strip) (decode (fst (readline (rx s)))),
      s\<lparr>events := events s @ [Write (''>RT'' @ [CHR 0x0D]), Flush,
                                ReadLine (fst (readline (rx s)))],
        rx := snd (readline (rx s))\<rparr>) \<and>
   get_current s =
     (map_sum id (strip \<circ> strip) (decode (fst (readline (rx s)))),
      s\<lparr>events := events s @ [Write (''>RC'' @ [CHR 0x0D]), Flush,
                                ReadLine (fst (readline (rx s)))],
        rx := snd (readline (rx s))\<rparr>) \<and>
   fst (readline bs) @ snd (readline bs) = bs \<and>
   (CHR 0x0A \<in> set bs \<longrightarrow> (\<exists>p. fst (readline bs) = p @ [CHR 0x0A] \<and> CHR 0x0A \<notin> set p)) \<and>
   (CHR 0x0A \<notin> set bs \<longrightarrow> readline bs = (bs, [])) \<and>
   (decode l = Inr t \<longleftrightarrow> list_all scalar t \<and> concat (map utf8 t) = l) \<and>
   (decode l = Inl e \<longleftrightarrow>
      e = UnicodeDecodeError \<and> \<not> (\<exists>u. list_all scalar u \<and> concat (map utf8 u) = l)) \<and>
   (list_all is_ascii l \<longrightarrow> decode l = Inr (code_points l)) \<and>
   (\<exists>a b. t = a @ strip t @ b \<and> list_all is_space a \<and> list_all is_space b) \<and>
   (strip t \<noteq> [] \<longrightarrow> \<not> is_space (hd (strip t)) \<and> \<not> is_space (last (strip t))) \<and>
   strip (strip t) = strip t \<and>
   (is_space n \<longleftrightarrow>
      n \<in> {9..13} \<union> {28..32} \<union> {0x85, 0xA0, 0x1680} \<union> {0x2000..0x200A} \<union>
        {0x2028, 0x2029, 0x202F, 0x205F, 0x3000}) \<and>
   (rx s = '' 23.5 '' @ [CHR 0x0A] \<longrightarrow> fst (get_temperature s) = Inr (code_points ''23.5''))"
proof -
  have enc: "encode ''>RT'' = ''>RT''" "encode ''>RC'' = ''>RC''"
    by (simp_all add: encode_ascii is_ascii_def)
  have 1: "get_temperature s =
     (map_sum id (strip \<circ> strip) (decode (fst (readline (rx s)))),
      s\<lparr>events := events s @ [Write (''>RT'' @ [CHR 0x0D]), Flush,
                                ReadLine (fst (readline (rx s)))],
        rx := snd (readline (rx s))\<rparr>)"
    unfolding get_temperature_def send_cmd_resp_eq enc ..
  have 2: "get_current s =
     (map_sum id (strip \<circ> strip) (decode (fst (readline (rx s)))),
      s\<lparr>events := events s @ [Write (''>RC'' @ [CHR 0x0D]), Flush,
                                ReadLine (fst (readline (rx s)))],
        rx := snd (readline (rx s))\<rparr>)"
    unfolding get_current_def send_cmd_resp_eq enc ..
  have 3: "CHR 0x0A \<in> set bs \<longrightarrow> (\<exists>p. fst (readline bs) = p @ [CHR 0x0A] \<and> CHR 0x0A \<notin> set p)"
    using readline_line [of bs] by (simp add: LF_def)
  have 4: "CHR 0x0A \<notin> set bs \<longrightarrow> readline bs = (bs, [])"
    using readline_timeout [of bs] by (simp add: LF_def)
  have 5: "list_all is_ascii l \<longrightarrow> decode l = Inr (code_points l)"
    by (simp add: decode_ascii)
  have 6: "strip t \<noteq> [] \<longrightarrow> \<not> is_space (hd (strip t)) \<and> \<not> is_space (last (strip t))"
    using strip_ends [of t] by (intro impI)
  have 7: "rx s = '' 23.5 '' @ [CHR 0x0A] \<longrightarrow> fst (get_temperature s) = Inr (code_points ''23.5'')"
  proof
    assume r: "rx s = '' 23.5 '' @ [CHR 0x0A]"
    have "fst (get_temperature s) =
        map_sum id (strip \<circ> strip) (decode (fst (readline ('' 23.5 '' @ [CHR 0x0A]))))"
      unfolding 1 r by simp
    also have "\<dots> = Inr (strip (strip (code_points ('' 23.5 '' @ [CHR 0x0A]))))"
      unfolding readline_example by (simp add: decode_ascii [OF ascii_example] del: append.simps)
    also have "\<dots> = Inr (code_points ''23.5'')"
      by (subst strip_strip) (simp only: strip_example)
    finally show "fst (get_temperature s) = Inr (code_points ''23.5'')" .
  qed
  from 1 2 readline_parts [of bs] 3 4 decode_iff [of l t] decode_raises [of l e] 5
    strip_parts [of t] 6 strip_strip [of t] is_space_list [of n] 7
  show ?thesis by (intro conjI)
qed

lemma events_example: "events example_state = []" "rx example_state = '' 23.5 '' @ [CHR 0x0A]"
  by (simp_all add: example_state_def)

theorem query_reads_one_line_witness:
  "get_temperature example_state =
     (Inr (code_points ''23.5''),
      example_state\<lparr>events := [Write (''>RT'' @ [CHR 0x0D]), Flush,
                                 ReadLine ('' 23.5 '' @ [CHR 0x0A])], rx := []\<rparr>) \<and>
   fst (get_current example_state) = Inr (code_points ''23.5'')"
proof -
  note q = query_reads_one_line [of example_state "[]" "[]" "[]" SystemExit 0]
  have d: "map_sum id (strip \<circ> strip) (decode ('' 23.5 '' @ [CHR 0x0A])) = Inr (code_points ''23.5'')"
    unfolding decode_ascii [OF ascii_example]
    by (simp del: append.simps, subst strip_strip) (simp only: strip_example)
  from q have "get_temperature example_state =
     (map_sum id (strip \<circ> strip) (decode (fst (readline (rx example_state)))),
      example_state\<lparr>events := events example_state @ [Write (''>RT'' @ [CHR 0x0D]), Flush,
                                ReadLine (fst (readline (rx example_state)))],
        rx := snd (readline (rx example_state))\<rparr>)"
    by (rule conjunct1)
  then have 1: "get_temperature example_state =
     (Inr (code_points ''23.5''),
      example_state\<lparr>events := [Write (''>RT'' @ [CHR 0x0D]), Flush,
                                 ReadLine ('' 23.5 '' @ [CHR 0x0A])], rx := []\<rparr>)"
    unfolding events_example readline_example by (simp add: d [simplified])
  from q have "get_current example_state =
     (map_sum id (strip \<circ> strip) (decode (fst (readline (rx example_state)))),
      example_state\<lparr>events := events example_state @ [Write (''>RC'' @ [CHR 0x0D]), Flush,
                                ReadLine (fst (readline (rx example_state)))],
        rx := snd (readline (rx example_state))\<rparr>)"
    by (rule conjunct2 [THEN conjunct1])
  then have 2: "fst (get_current example_state) = Inr (code_points ''23.5'')"
    unfolding events_example readline_example by (simp add: d [simplified])
  from 1 2 show ?thesis by (intro conjI)
qed

text \<open>
  The claim as stated fails: on a response that is not UTF-8, here the byte 0xFF before
  the line feed, the query returns no string, it raises.
\<close>

theorem malformed_response_counterexample:
  "fst (get_temperature (example_state\<lparr>rx := [CHR 0xFF, CHR 0x0A]\<rparr>)) = Inl UnicodeDecodeError"
  by (simp add: get_temperature_def send_cmd_resp_eq readline_def LF_def decode_def)

subsection \<open>Framing\<close>











end
